theory Spec2Isabelle
  imports Main
begin

section \<open>JavaScript values used by the functions\<close>

text \<open>
  Identifiers arrive from the two remote systems either as numbers or as strings. The
  code normalises them with \<^verbatim>\<open>String(x)\<close>. Numeric identifiers are modelled as
  natural numbers, on which \<^verbatim>\<open>String\<close> is the plain decimal rendering (for the
  integers below \<open>10^21\<close>, which covers every identifier a remote system hands out).
  Strings are ASCII character lists. Quantities, prices and remote ids are modelled as
  \<open>int\<close>: JavaScript arithmetic is exact on integers of magnitude below \<open>2^53\<close>.
\<close>

datatype jsid = IdNum nat | IdStr string

definition digit :: "nat \<Rightarrow> char" where
  "digit d = ''0123456789'' ! d"

function decimal :: "nat \<Rightarrow> string" where
  "decimal n = (if n < 10 then [digit n] else decimal (n div 10) @ [digit (n mod 10)])"
  by pat_completeness auto
termination
  by (relation "measure id") auto

declare decimal.simps [simp del]

fun String :: "jsid \<Rightarrow> string" where
  "String (IdNum n) = decimal n"
| "String (IdStr s) = s"

section \<open>The request table (OdooSpeakRequest.js)\<close>

text \<open>
  \<open>attributes\<close> is \<^verbatim>\<open>request.attributes\<close> of one element of the payload fetched from
  Infraspeak. The three fields that \<^verbatim>\<open>checkAndUpsertRequests\<close> destructures with a
  default value are optional (\<open>None\<close> is \<^verbatim>\<open>undefined\<close>), the others are read unguarded.
\<close>

record attributes =
  request_id :: jsid
  type :: string
  related_to_type :: string
  related_to_id :: jsid
  date_created :: string
  date_updated :: string
  operator_id :: jsid
  cost_center_odoo :: "string option"
  journal_move_id :: "string option"
  stock_move_ids :: "int list option"

datatype state = COMPLETED | REVERSED

datatype upserted = INSERTED | UPDATED

text \<open>
  One item of the DynamoDB table \<^verbatim>\<open>odooSpeakRequests\<close>, keyed by \<^verbatim>\<open>request_id\<close>. The
  fields written by \<^verbatim>\<open>insertRequestToDynamo\<close> are always present; the ids written
  back later by \<^verbatim>\<open>saveInventoryResponseToDynamo\<close> and \<^verbatim>\<open>saveCostCenterToDynamo\<close> are
  optional attributes.
\<close>

record item =
  item_request_id :: string
  item_type :: string
  item_related_to_type :: string
  item_related_to_id :: string
  item_state :: state
  item_date_created :: string
  item_date_updated :: string
  item_operator_id :: string
  item_reversed :: bool
  item_stock_move_ids :: "int list option"
  item_account_move_id :: "int option"
  item_cost_center_odoo :: "int option"

text \<open>
  One element of the \<^verbatim>\<open>results\<close> array of \<^verbatim>\<open>checkAndUpsertRequests\<close>. The object
  pushed for a reversed request has neither \<^verbatim>\<open>cost_center_odoo\<close>, \<^verbatim>\<open>journal_move_id\<close>,
  \<^verbatim>\<open>stock_move_ids\<close> nor \<^verbatim>\<open>upserted\<close>; these are \<open>None\<close> there.
\<close>

record result =
  res_cost_center_odoo :: "string option"
  res_journal_move_id :: "string option"
  res_request_id :: string
  res_related_to_id :: jsid
  res_related_to_type :: string
  res_stock_move_ids :: "int list option"
  res_state :: state
  res_upserted :: "upserted option"

text \<open>
  Modelled from the spec: the storage engine of the State Store is not part of the
  repository; only its contract is used (scan-all, put-item, partial attribute update,
  key = \<^verbatim>\<open>request_id\<close> as a string). The table is the list of its items in scan order.
  \<open>putItem\<close> replaces the whole item stored under the key, or adds the item.
  \<open>updateItem\<close> rewrites attributes of the item stored under the key; every update
  issued by the functions below addresses a key that was read from the table in the
  same run, and nothing ever deletes from the table.
\<close>

type_synonym table = "item list"

definition putItem :: "item \<Rightarrow> table \<Rightarrow> table" where
  "putItem it tbl =
     (if item_request_id it \<in> set (map item_request_id tbl)
      then map (\<lambda>x. if item_request_id x = item_request_id it then it else x) tbl
      else tbl @ [it])"

definition updateItem :: "string \<Rightarrow> (item \<Rightarrow> item) \<Rightarrow> table \<Rightarrow> table" where
  "updateItem k f tbl = map (\<lambda>x. if item_request_id x = k then f x else x) tbl"

definition getAllRequestsFromDynamo :: "table \<Rightarrow> item list" where
  "getAllRequestsFromDynamo tbl = tbl"

definition insertRequestToDynamo :: "attributes \<Rightarrow> table \<Rightarrow> table" where
  "insertRequestToDynamo a tbl =
     putItem \<lparr> item_request_id = String (request_id a),
               item_type = type a,
               item_related_to_type = related_to_type a,
               item_related_to_id = String (related_to_id a),
               item_state = COMPLETED,
               item_date_created = date_created a,
               item_date_updated = date_updated a,
               item_operator_id = String (operator_id a),
               item_reversed = False,
               item_stock_move_ids = None,
               item_account_move_id = None,
               item_cost_center_odoo = None \<rparr> tbl"

definition updateRequestInDynamo :: "string \<Rightarrow> attributes \<Rightarrow> table \<Rightarrow> table" where
  "updateRequestInDynamo requestId a tbl =
     updateItem requestId
       (\<lambda>x. x\<lparr> item_type := type a,
                item_related_to_type := related_to_type a,
                item_related_to_id := String (related_to_id a),
                item_state := COMPLETED,
                item_date_created := date_created a,
                item_date_updated := date_updated a,
                item_operator_id := String (operator_id a),
                item_reversed := False \<rparr>) tbl"

definition markAsReversed :: "string \<Rightarrow> table \<Rightarrow> table" where
  "markAsReversed requestId tbl = updateItem requestId (\<lambda>x. x\<lparr> item_reversed := True \<rparr>) tbl"

definition resetReversedFlag :: "string \<Rightarrow> table \<Rightarrow> table" where
  "resetReversedFlag requestId tbl = updateItem requestId (\<lambda>x. x\<lparr> item_reversed := False \<rparr>) tbl"

subsection \<open>checkAndUpsertRequests\<close>

text \<open>
  The body of the first loop of \<^verbatim>\<open>checkAndUpsertRequests\<close>, over the payload. \<open>existingItems\<close> is
  the scan taken before the loop; the table and the \<^verbatim>\<open>results\<close> array are threaded
  through. \<^verbatim>\<open>x || ''\<close> and a destructuring default \<^verbatim>\<open>= ''\<close> agree on an optional string.
\<close>

definition orEmpty :: "string option \<Rightarrow> string" where
  "orEmpty v = (case v of None \<Rightarrow> [] | Some s \<Rightarrow> s)"

definition insertedResult :: "attributes \<Rightarrow> result" where
  "insertedResult a =
     \<lparr> res_cost_center_odoo = Some (orEmpty (cost_center_odoo a)),
       res_journal_move_id = Some (orEmpty (journal_move_id a)),
       res_request_id = String (request_id a),
       res_related_to_id = related_to_id a,
       res_related_to_type = related_to_type a,
       res_stock_move_ids = Some [],
       res_state = COMPLETED,
       res_upserted = Some INSERTED \<rparr>"

definition updatedResult :: "attributes \<Rightarrow> item \<Rightarrow> result" where
  "updatedResult a existingItem =
     \<lparr> res_cost_center_odoo = Some (orEmpty (cost_center_odoo a)),
       res_journal_move_id = Some (orEmpty (journal_move_id a)),
       res_request_id = String (request_id a),
       res_related_to_id = related_to_id a,
       res_related_to_type = related_to_type a,
       res_stock_move_ids =
         Some (case item_stock_move_ids existingItem of None \<Rightarrow> [] | Some ids \<Rightarrow> ids),
       res_state = COMPLETED,
       res_upserted = Some UPDATED \<rparr>"

definition reversedResult :: "item \<Rightarrow> result" where
  "reversedResult it =
     \<lparr> res_cost_center_odoo = None,
       res_journal_move_id = None,
       res_request_id = item_request_id it,
       res_related_to_id = IdStr (item_related_to_id it),
       res_related_to_type = item_related_to_type it,
       res_stock_move_ids = None,
       res_state = REVERSED,
       res_upserted = None \<rparr>"

definition upsertBody :: "item list \<Rightarrow> attributes \<Rightarrow> table \<times> result list \<Rightarrow> table \<times> result list" where
  "upsertBody existingItems a s =
     (let (tbl, results) = s;
          requestId = String (request_id a) in
      case find (\<lambda>it. item_request_id it = requestId) existingItems of
        None \<Rightarrow> (insertRequestToDynamo a tbl, results @ [insertedResult a])
      | Some existingItem \<Rightarrow>
          (let tbl1 = (if item_reversed existingItem then resetReversedFlag requestId tbl else tbl) in
           if item_date_updated existingItem \<noteq> date_updated a
           then (updateRequestInDynamo requestId a tbl1, results @ [updatedResult a existingItem])
           else (tbl1, results)))"

text \<open>The body of the second loop, over the scanned items: those absent from the payload.\<close>

definition reverseBody :: "string set \<Rightarrow> item \<Rightarrow> table \<times> result list \<Rightarrow> table \<times> result list" where
  "reverseBody payloadRequestIds it s =
     (let (tbl, results) = s in
      if item_request_id it \<notin> payloadRequestIds \<and> \<not> item_reversed it
      then (markAsReversed (item_request_id it) tbl, results @ [reversedResult it])
      else (tbl, results))"

text \<open>
  \<open>runLoops\<close> is \<^verbatim>\<open>checkAndUpsertRequests\<close> up to its last line: the two \<^verbatim>\<open>for\<close> loops
  run one after the other (\<open>fold\<close> applies the body to each element in order), giving
  the table after the run and the \<^verbatim>\<open>results\<close> array. The function returns the array,
  or \<^verbatim>\<open>null\<close> (\<open>None\<close>) when the array is empty.
\<close>

definition runLoops :: "attributes list \<Rightarrow> table \<Rightarrow> table \<times> result list" where
  "runLoops payloadRequest tbl =
     (let payloadRequestIds = set (map (\<lambda>a. String (request_id a)) payloadRequest);
          existingItems = getAllRequestsFromDynamo tbl
      in fold (reverseBody payloadRequestIds) existingItems
           (fold (upsertBody existingItems) payloadRequest (tbl, [])))"

definition checkAndUpsertRequests :: "attributes list \<Rightarrow> table \<Rightarrow> result list option \<times> table" where
  "checkAndUpsertRequests payloadRequest tbl =
     (let (tbl', results) = runLoops payloadRequest tbl
      in (if length results > 0 then Some results else None, tbl'))"

text \<open>
  Notions used to state the properties of \<^verbatim>\<open>checkAndUpsertRequests\<close>. \<open>itemFor k tbl\<close>
  is \<^verbatim>\<open>existingItems.find(item => item.request_id === k)\<close>, \<open>keyOf a\<close> the normalised
  id of a request. The next three definitions follow the wording of the specification of
  the Reconciliation Engine (steps 2 and 3): what one incoming request contributes to
  the classified list, what it does to the table, and which persisted items are
  retracted.
\<close>

abbreviation itemFor :: "string \<Rightarrow> item list \<Rightarrow> item option" where
  "itemFor k tbl \<equiv> find (\<lambda>it. item_request_id it = k) tbl"

abbreviation keyOf :: "attributes \<Rightarrow> string" where
  "keyOf a \<equiv> String (request_id a)"

abbreviation keys :: "item list \<Rightarrow> string list" where
  "keys tbl \<equiv> map item_request_id tbl"

definition classifyRequest :: "item list \<Rightarrow> attributes \<Rightarrow> result list" where
  "classifyRequest existingItems a =
     (case itemFor (keyOf a) existingItems of
        None \<Rightarrow> [insertedResult a]
      | Some e \<Rightarrow> if item_date_updated e \<noteq> date_updated a then [updatedResult a e] else [])"

definition upsertTable :: "item list \<Rightarrow> attributes \<Rightarrow> table \<Rightarrow> table" where
  "upsertTable existingItems a tbl =
     (case itemFor (keyOf a) existingItems of
        None \<Rightarrow> insertRequestToDynamo a tbl
      | Some e \<Rightarrow>
          (let tbl1 = (if item_reversed e then resetReversedFlag (keyOf a) tbl else tbl) in
           if item_date_updated e \<noteq> date_updated a
           then updateRequestInDynamo (keyOf a) a tbl1 else tbl1))"

definition absentItems :: "attributes list \<Rightarrow> item list \<Rightarrow> item list" where
  "absentItems payloadRequest existingItems =
     filter (\<lambda>it. item_request_id it \<notin> set (map keyOf payloadRequest) \<and> \<not> item_reversed it)
       existingItems"

text \<open>
  \<open>expectedItem existingItems a\<close> is the item the table holds for the id of request
  \<open>a\<close> once the request has been processed against the scan \<open>existingItems\<close>;
  \<open>liveAt k tbl\<close> says that the table holds an item for \<open>k\<close> whose \<^verbatim>\<open>reversed\<close> flag
  is false.
\<close>

definition expectedItem :: "item list \<Rightarrow> attributes \<Rightarrow> item" where
  "expectedItem existingItems a =
     (case itemFor (keyOf a) existingItems of
        None \<Rightarrow>
          \<lparr> item_request_id = keyOf a, item_type = type a,
            item_related_to_type = related_to_type a,
            item_related_to_id = String (related_to_id a), item_state = COMPLETED,
            item_date_created = date_created a, item_date_updated = date_updated a,
            item_operator_id = String (operator_id a), item_reversed = False,
            item_stock_move_ids = None, item_account_move_id = None,
            item_cost_center_odoo = None \<rparr>
      | Some e \<Rightarrow>
          if item_date_updated e \<noteq> date_updated a
          then e\<lparr> item_type := type a, item_related_to_type := related_to_type a,
                  item_related_to_id := String (related_to_id a), item_state := COMPLETED,
                  item_date_created := date_created a, item_date_updated := date_updated a,
                  item_operator_id := String (operator_id a), item_reversed := False \<rparr>
          else e\<lparr> item_reversed := False \<rparr>)"

definition liveAt :: "string \<Rightarrow> table \<Rightarrow> bool" where
  "liveAt k tbl = (case itemFor k tbl of None \<Rightarrow> False | Some e \<Rightarrow> \<not> item_reversed e)"

section \<open>Translation of a completed order (OdooSpeakRequest.js)\<close>

text \<open>
  Every \<^verbatim>\<open>throw new Error(...)\<close> of the modelled functions is a constructor of \<open>error\<close>,
  named after its message; \<open>TypeError\<close> is the exception JavaScript raises when a
  property of \<^verbatim>\<open>null\<close> is read. A \<^verbatim>\<open>catch\<close> block that rethrows under a new message
  wraps the error it caught. \<open>RemoteCallError\<close> stands for whatever a failed call to a
  remote system throws.
\<close>

datatype error =
    InvalidResponseStructure
  | TypeError
  | ErrorFetchingCostCenterId error
  | MaterialCodeMissing
  | FullCodeMissing
  | FolderCodeMissing
  | ErrorPreparingMaterialData error
  | MaterialCodeMissingItem
  | MissingProductReferenceCode
  | CannotPost int int int
  | NoMatchingProduct string
  | NoValidInventoryData
  | ErrorPreparingInventory error
  | PostingUnsuccessful
  | RemoteCallError string
  | EmptyDatasets

text \<open>
  JavaScript truthiness of an optional string and of an optional number (\<open>None\<close> is
  \<^verbatim>\<open>undefined\<close> or \<^verbatim>\<open>null\<close>): the empty string and \<open>0\<close> are falsy.
\<close>

definition truthyStr :: "string option \<Rightarrow> bool" where
  "truthyStr v = (case v of None \<Rightarrow> False | Some s \<Rightarrow> s \<noteq> [])"

definition truthyNum :: "int option \<Rightarrow> bool" where
  "truthyNum v = (case v of None \<Rightarrow> False | Some n \<Rightarrow> n \<noteq> 0)"

definition truthyId :: "jsid option \<Rightarrow> bool" where
  "truthyId v = (case v of None \<Rightarrow> False | Some (IdNum n) \<Rightarrow> n \<noteq> 0 | Some (IdStr s) \<Rightarrow> s \<noteq> [])"

text \<open>
  The response of Infraspeak for one order: \<^verbatim>\<open>data.attributes\<close> and the \<^verbatim>\<open>included\<close>
  resources, discriminated by their \<^verbatim>\<open>type\<close> (\<^verbatim>\<open>'material'\<close>, \<^verbatim>\<open>'stock'\<close>, anything else).
  A field that the code guards (\<^verbatim>\<open>!x\<close>, \<^verbatim>\<open>x || 0\<close>, \<^verbatim>\<open>?.\<close>, a default) is optional; a
  field it reads unguarded is present. The attributes of a stock entry are prefixed
  with \<open>stock_\<close>.
\<close>

record order_attributes =
  cost_center_id :: "jsid option"
  cost_center_name :: "string option"

record material_attributes =
  material_id :: "int option"
  code :: "string option"
  full_code :: "string option"
  mean_price :: int

record stock_attributes =
  stock_material_id :: int
  stock_quantity :: "int option"
  stock_mean_price :: int

datatype included = Material material_attributes | Stock stock_attributes | Other

record infraspeak_response =
  data :: "order_attributes option"
  included :: "included list option"

text \<open>An element of \<^verbatim>\<open>costCenters\<close> (\<^verbatim>\<open>{id, name, code}\<close>) and an Odoo account (\<^verbatim>\<open>{id, code}\<close>).\<close>

record cost_center =
  cc_id :: string
  cc_name :: string
  cc_code :: "string option"

record odoo_account =
  acc_id :: int
  acc_code :: string

text \<open>
  One element of the \<^verbatim>\<open>material\<close> list built by \<^verbatim>\<open>processWorkOrder\<close>, and the object the
  function returns (its \<^verbatim>\<open>workOrderId\<close> is \<open>order_workOrderId\<close>).
\<close>

record material_line =
  workOrderId :: jsid
  materialId :: int
  materialCode :: string
  folderCode :: string
  quantity :: int
  meanPrice :: int

record processed =
  order_workOrderId :: jsid
  costCenter :: int
  material :: "material_line list"

text \<open>
  \<^verbatim>\<open>getOdooCostCenterId\<close>: the outcome of the remote read \<^verbatim>\<open>getOdooAccounts\<close> (the
  accounts, or the error it threw) is a parameter here. Reading \<^verbatim>\<open>[0].id\<close> of an empty
  filter result raises, and the \<^verbatim>\<open>catch\<close> rethrows whatever was thrown.
\<close>

definition getOdooCostCenterId :: "error + odoo_account list \<Rightarrow> string option \<Rightarrow> error + int" where
  "getOdooCostCenterId getOdooAccounts costCenterCode =
     (case getOdooAccounts of
        Inl e \<Rightarrow> Inl (ErrorFetchingCostCenterId e)
      | Inr odooAccounts \<Rightarrow>
          (case filter (\<lambda>a. Some (acc_code a) = costCenterCode) odooAccounts of
             [] \<Rightarrow> Inl (ErrorFetchingCostCenterId TypeError)
           | a # _ \<Rightarrow> Inr (acc_id a)))"

definition saveCostCenterToDynamo :: "string \<Rightarrow> int \<Rightarrow> table \<Rightarrow> table" where
  "saveCostCenterToDynamo requestId cc tbl =
     updateItem requestId (\<lambda>x. x\<lparr> item_cost_center_odoo := Some cc \<rparr>) tbl"

text \<open>
  The \<^verbatim>\<open>reduce\<close> that builds \<^verbatim>\<open>stockMap\<close>: an object keyed by \<^verbatim>\<open>material_id\<close> whose
  values \<^verbatim>\<open>{totalQuantity, meanPrice}\<close> are pairs here. \<open>quantityOrZero\<close> is
  \<^verbatim>\<open>stock.attributes.quantity || 0\<close>.
\<close>

definition quantityOrZero :: "stock_attributes \<Rightarrow> int" where
  "quantityOrZero stock = (case stock_quantity stock of None \<Rightarrow> 0 | Some q \<Rightarrow> q)"

definition stockStep :: "(int \<rightharpoonup> int \<times> int) \<Rightarrow> stock_attributes \<Rightarrow> (int \<rightharpoonup> int \<times> int)" where
  "stockStep acc stock =
     (let mid = stock_material_id stock;
          qty = quantityOrZero stock;
          acc1 = (case acc mid of
                    None \<Rightarrow> acc(mid \<mapsto> (0, stock_mean_price stock))
                  | Some _ \<Rightarrow> acc)
      in case acc1 mid of
           None \<Rightarrow> acc1
         | Some (tq, mp) \<Rightarrow> acc1(mid \<mapsto> (tq + qty, mp)))"

definition stocksOf :: "included list \<Rightarrow> stock_attributes list" where
  "stocksOf incl = List.map_filter (\<lambda>i. case i of Stock s \<Rightarrow> Some s | _ \<Rightarrow> None) incl"

definition materialsOf :: "included list \<Rightarrow> material_attributes list" where
  "materialsOf incl = List.map_filter (\<lambda>i. case i of Material m \<Rightarrow> Some m | _ \<Rightarrow> None) incl"

definition stockMap :: "included list \<Rightarrow> (int \<rightharpoonup> int \<times> int)" where
  "stockMap incl = foldl stockStep Map.empty (stocksOf incl)"

text \<open>The stock entries of a material.\<close>

abbreviation stocksFor :: "int \<Rightarrow> stock_attributes list \<Rightarrow> stock_attributes list" where
  "stocksFor k stocks \<equiv> filter (\<lambda>s. stock_material_id s = k) stocks"

text \<open>
  The callback of \<^verbatim>\<open>materials.map\<close>: \<open>Inr None\<close> is \<^verbatim>\<open>return null\<close> (the material is
  skipped), \<open>Inl\<close> a \<^verbatim>\<open>throw\<close>. \<^verbatim>\<open>fullCode.split('.')[0]\<close> is the text before the first dot.
\<close>

definition materialEntry ::
  "(int \<rightharpoonup> int \<times> int) \<Rightarrow> jsid \<Rightarrow> material_attributes \<Rightarrow> error + material_line option" where
  "materialEntry smap wo m =
     (if \<not> truthyNum (material_id m) then Inr None
      else
        let mid = the (material_id m);
            stock = (case smap mid of None \<Rightarrow> (0, mean_price m) | Some g \<Rightarrow> g)
        in if \<not> truthyStr (code m) then Inl MaterialCodeMissing
           else if \<not> truthyStr (full_code m) then Inl FullCodeMissing
           else
             let fc = takeWhile (\<lambda>c. c \<noteq> CHR ''.'') (the (full_code m))
             in if fc = [] then Inl FolderCodeMissing
                else Inr (Some \<lparr> workOrderId = wo, materialId = mid,
                                 materialCode = the (code m), folderCode = fc,
                                 quantity = fst stock, meanPrice = snd stock \<rparr>))"

text \<open>\<^verbatim>\<open>Array.prototype.map\<close> with a callback that may throw: the first throw ends it.\<close>

fun mapThrowing :: "('a \<Rightarrow> error + 'b) \<Rightarrow> 'a list \<Rightarrow> error + 'b list" where
  "mapThrowing f [] = Inr []"
| "mapThrowing f (x # xs) =
     (case f x of
        Inl e \<Rightarrow> Inl e
      | Inr y \<Rightarrow> (case mapThrowing f xs of Inl e \<Rightarrow> Inl e | Inr ys \<Rightarrow> Inr (y # ys)))"

definition materialData ::
  "(int \<rightharpoonup> int \<times> int) \<Rightarrow> jsid \<Rightarrow> material_attributes list \<Rightarrow> error + material_line list" where
  "materialData smap wo materials =
     (case mapThrowing (materialEntry smap wo) materials of
        Inl e \<Rightarrow> Inl (ErrorPreparingMaterialData e)
      | Inr entries \<Rightarrow> Inr (List.map_filter (\<lambda>x. x) entries))"

text \<open>
  \<^verbatim>\<open>processWorkOrder\<close>. The cost center is looked up by id first, by name when that gave
  no code. The resolved account id is saved to the table before the material list is
  built, so the table is returned also when the material list fails.
\<close>

definition costCenterCodeOf :: "cost_center list \<Rightarrow> order_attributes \<Rightarrow> string option" where
  "costCenterCodeOf costCenters attrs =
     (let byId =
            (if truthyId (cost_center_id attrs)
             then (case find (\<lambda>c. cc_id c = String (the (cost_center_id attrs))) costCenters of
                     None \<Rightarrow> None | Some c \<Rightarrow> cc_code c)
             else None)
      in if truthyStr (cost_center_name attrs) \<and> \<not> truthyStr byId
         then (case find (\<lambda>c. Some (cc_name c) = cost_center_name attrs) costCenters of
                 None \<Rightarrow> None | Some c \<Rightarrow> cc_code c)
         else byId)"

definition processWorkOrder ::
  "error + odoo_account list \<Rightarrow> infraspeak_response option \<Rightarrow> cost_center list \<Rightarrow> jsid \<Rightarrow> string
     \<Rightarrow> table \<Rightarrow> (error + processed) \<times> table" where
  "processWorkOrder odooAccounts infraspeakData costCenters wo requestId tbl =
     (case infraspeakData of
        None \<Rightarrow> (Inl InvalidResponseStructure, tbl)
      | Some resp \<Rightarrow>
          (case (data resp, included resp) of
             (Some attrs, Some incl) \<Rightarrow>
               (case getOdooCostCenterId odooAccounts (costCenterCodeOf costCenters attrs) of
                  Inl e \<Rightarrow> (Inl e, tbl)
                | Inr cc \<Rightarrow>
                    (let tbl1 = saveCostCenterToDynamo requestId cc tbl in
                     case materialData (stockMap incl) wo (materialsOf incl) of
                       Inl e \<Rightarrow> (Inl e, tbl1)
                     | Inr lines \<Rightarrow>
                         (Inr \<lparr> order_workOrderId = wo, costCenter = cc, material = lines \<rparr>,
                          tbl1)))
           | _ \<Rightarrow> (Inl InvalidResponseStructure, tbl)))"

section \<open>Inventory postings (OdooSpeakRequest.js)\<close>

text \<open>
  String functions of JavaScript on ASCII text. \<open>matchBracket s\<close> is the capture group of
  \<^verbatim>\<open>s.match(/\[(.*?)\]/)\<close>, or \<open>None\<close> when the match is \<^verbatim>\<open>null\<close>: the match starts at the
  leftmost \<^verbatim>\<open>[\<close> that is followed by a \<^verbatim>\<open>]\<close> with no line terminator in between (the dot
  does not match one), and the lazy group ends at the first such \<^verbatim>\<open>]\<close>.
\<close>

definition isLineTerminator :: "char \<Rightarrow> bool" where
  "isLineTerminator c = (of_char c = (10::nat) \<or> of_char c = (13::nat))"

fun bracketBody :: "string \<Rightarrow> string option" where
  "bracketBody [] = None"
| "bracketBody (c # cs) =
     (if c = CHR '']'' then Some []
      else if isLineTerminator c then None
      else map_option (\<lambda>b. c # b) (bracketBody cs))"

fun matchBracket :: "string \<Rightarrow> string option" where
  "matchBracket [] = None"
| "matchBracket (c # cs) =
     (if c = CHR ''[''
      then (case bracketBody cs of Some b \<Rightarrow> Some b | None \<Rightarrow> matchBracket cs)
      else matchBracket cs)"

definition isWhiteSpace :: "char \<Rightarrow> bool" where
  "isWhiteSpace c = (of_char c \<in> {9, 10, 11, 12, 13, 32 :: nat})"

definition trim :: "string \<Rightarrow> string" where
  "trim s = rev (dropWhile isWhiteSpace (rev (dropWhile isWhiteSpace s)))"

definition toUpperCase :: "string \<Rightarrow> string" where
  "toUpperCase s =
     map (\<lambda>c. if (97::nat) \<le> of_char c \<and> of_char c \<le> (122::nat)
               then char_of (of_char c - (32::nat)) else c) s"



text \<open>
  One row of the Odoo \<^verbatim>\<open>stock.quant\<close> snapshot; a many2one field is the pair
  \<^verbatim>\<open>[id, display name]\<close>. The fields are prefixed with \<open>quant_\<close>.
\<close>

record quant =
  quant_id :: int
  quant_product_id :: "int \<times> string"
  quant_location_id :: "int \<times> string"
  quant_quantity :: int
  quant_warehouse_id :: "(int \<times> string) option"

text \<open>One element of the list returned by \<^verbatim>\<open>prepareInventoryPosting\<close>.\<close>

record posting =
  product_id :: int
  location_id :: int
  posting_quantity :: int
  work_order_id :: jsid

text \<open>
  The callback of \<^verbatim>\<open>odooStock.find\<close> throws on a record whose display name gives no
  match (\<^verbatim>\<open>null[1]\<close>) or an empty code; \<open>findMatchingProduct\<close> is the \<^verbatim>\<open>find\<close> with this
  callback: it stops at the first record for which the callback returns true.
\<close>

definition codeMatches :: "string \<Rightarrow> string \<Rightarrow> bool" where
  "codeMatches productReferenceCode code1 =
     (toUpperCase (trim productReferenceCode) = toUpperCase (trim code1))"

fun findMatchingProduct :: "string \<Rightarrow> quant list \<Rightarrow> error + quant option" where
  "findMatchingProduct code1 [] = Inr None"
| "findMatchingProduct code1 (product # rest) =
     (case matchBracket (snd (quant_product_id product)) of
        None \<Rightarrow> Inl TypeError
      | Some productReferenceCode \<Rightarrow>
          if productReferenceCode = [] then Inl MissingProductReferenceCode
          else if codeMatches productReferenceCode code1 then Inr (Some product)
          else findMatchingProduct code1 rest)"

text \<open>
  The callback of \<^verbatim>\<open>processedWorkOrder.forEach\<close>. \<^verbatim>\<open>processedWorkOrder[0]\<close> is read inside
  the loop only, where the list is not empty.
\<close>

definition inventoryItem :: "material_line list \<Rightarrow> quant list \<Rightarrow> material_line \<Rightarrow> error + posting" where
  "inventoryItem processedWorkOrder odooStock workOrderItem =
     (if materialCode workOrderItem = [] then Inl MaterialCodeMissingItem
      else
        case findMatchingProduct (materialCode workOrderItem) odooStock of
          Inl e \<Rightarrow> Inl e
        | Inr None \<Rightarrow> Inl (NoMatchingProduct (materialCode workOrderItem))
        | Inr (Some matchingProduct) \<Rightarrow>
            if quant_quantity matchingProduct - quantity workOrderItem < 0
            then Inl (CannotPost (quantity workOrderItem) (quant_id matchingProduct)
                        (quant_quantity matchingProduct))
            else Inr \<lparr> product_id = fst (quant_product_id matchingProduct),
                       location_id = fst (quant_location_id matchingProduct),
                       posting_quantity = quantity workOrderItem,
                       work_order_id = workOrderId (hd processedWorkOrder) \<rparr>)"

definition prepareInventoryPosting :: "material_line list \<Rightarrow> quant list \<Rightarrow> error + posting list" where
  "prepareInventoryPosting processedWorkOrder odooStock =
     (case mapThrowing (inventoryItem processedWorkOrder odooStock) processedWorkOrder of
        Inl e \<Rightarrow> Inl (ErrorPreparingInventory e)
      | Inr results \<Rightarrow>
          if length results = 0 then Inl (ErrorPreparingInventory NoValidInventoryData)
          else Inr results)"

text \<open>
  Notions used to state the properties of the matching: the reference code of a snapshot
  record, a record whose display name carries a non-empty bracketed code, and the first
  record of the snapshot whose code matches a material line.
\<close>

definition referenceCode :: "quant \<Rightarrow> string option" where
  "referenceCode product = matchBracket (snd (quant_product_id product))"

definition wellCoded :: "quant \<Rightarrow> bool" where
  "wellCoded product = (case referenceCode product of None \<Rightarrow> False | Some c \<Rightarrow> c \<noteq> [])"

definition firstMatch :: "quant list \<Rightarrow> material_line \<Rightarrow> quant option" where
  "firstMatch odooStock workOrderItem =
     find (\<lambda>product. case referenceCode product of
                        None \<Rightarrow> False
                      | Some c \<Rightarrow> codeMatches c (materialCode workOrderItem)) odooStock"

section \<open>The journal entry (OdooSpeakRequest.js)\<close>

definition accountJournalId :: int where
  "accountJournalId = 16"

definition accountIdInventories :: int where
  "accountIdInventories = 482"

text \<open>A number in a template literal: its decimal rendering.\<close>

definition showInt :: "int \<Rightarrow> string" where
  "showInt n = (if n < 0 then CHR ''-'' # decimal (nat (- n)) else decimal (nat n))"

text \<open>
  One element of \<^verbatim>\<open>line_ids\<close> (the object of the triple \<^verbatim>\<open>[0, 0, {...}]\<close>) and the record
  passed to \<^verbatim>\<open>account.move/create\<close>. A debit line has no \<^verbatim>\<open>credit\<close> and conversely.
\<close>

record move_line =
  line_account_id :: int
  line_name :: string
  line_debit :: "int option"
  line_credit :: "int option"

record account_move =
  move_ref :: "string option"
  move_type :: string
  move_journal_id :: int
  move_line_ids :: "move_line list"
  move_x_work_order_id :: jsid

definition lineName :: "processed \<Rightarrow> string \<Rightarrow> state \<Rightarrow> material_line \<Rightarrow> string" where
  "lineName accountingData orderType st m =
     (if st = REVERSED
      then orderType @ '' '' @ String (order_workOrderId accountingData) @ '' REVERSED''
      else orderType @ '' '' @ String (order_workOrderId accountingData) @ '' - Ref: ''
           @ materialCode m @ '' (Qty: '' @ showInt (quantity m) @ '')'')"

definition materialLines :: "processed \<Rightarrow> int \<Rightarrow> string \<Rightarrow> state \<Rightarrow> move_line list" where
  "materialLines accountingData costCenterId orderType st =
     (let debitAccount = (if st = REVERSED then costCenterId else accountIdInventories);
          creditAccount = (if st = REVERSED then accountIdInventories else costCenterId)
      in concat (map (\<lambda>m.
           let amount = (if st = REVERSED then meanPrice m else meanPrice m * quantity m) in
           [\<lparr> line_account_id = debitAccount, line_name = lineName accountingData orderType st m,
              line_debit = Some amount, line_credit = None \<rparr>,
            \<lparr> line_account_id = creditAccount, line_name = lineName accountingData orderType st m,
              line_debit = None, line_credit = Some amount \<rparr>])
         (material accountingData)))"

text \<open>
  \<^verbatim>\<open>postOdooAccounting\<close> up to the remote call: the journal entry it sends. \<^verbatim>\<open>name\<close> is
  assigned in the callback, so \<^verbatim>\<open>ref\<close> is the name of the last material, or
  \<^verbatim>\<open>undefined\<close> without materials.
\<close>

definition postOdooAccounting :: "processed \<Rightarrow> int \<Rightarrow> string \<Rightarrow> state \<Rightarrow> account_move" where
  "postOdooAccounting accountingData costCenterId orderType st =
     \<lparr> move_ref = (case material accountingData of
                     [] \<Rightarrow> None
                   | _ \<Rightarrow> Some (lineName accountingData orderType st (last (material accountingData)))),
       move_type = ''entry'',
       move_journal_id = accountJournalId,
       move_line_ids = materialLines accountingData costCenterId orderType st,
       move_x_work_order_id = order_workOrderId accountingData \<rparr>"

text \<open>
  The amount of a journal line pair: \<^verbatim>\<open>meanPrice * quantity\<close>, or \<^verbatim>\<open>meanPrice\<close> alone when
  the state is REVERSED.
\<close>

definition amountOf :: "state \<Rightarrow> material_line \<Rightarrow> int" where
  "amountOf st m = (case st of COMPLETED \<Rightarrow> meanPrice m * quantity m | REVERSED \<Rightarrow> meanPrice m)"

section \<open>The handler (OdooSpeakRequest.js)\<close>

text \<open>
  The remote systems are parameters of the handler: for each remote read its outcome
  (the value, or the error it threw), for each remote write a function of the table.
  \<open>postToOdoo\<close> gives the truthiness of its response; \<open>reverseItem\<close> stands for steps 4.2.1
  to 4.2.4, which only talk to the remote systems.
\<close>

record remote =
  getInfraspeakRequests :: "error + attributes list"
  getCostCentersInfraspeak :: "error + cost_center list"
  getOdooStockQuant :: "error + quant list"
  getInfraspeakData :: "jsid \<Rightarrow> string \<Rightarrow> error + infraspeak_response option"
  getOdooAccounts :: "error + odoo_account list"
  postToOdoo :: "posting list \<Rightarrow> processed \<Rightarrow> string \<Rightarrow> state \<Rightarrow> string \<Rightarrow> table
                   \<Rightarrow> (error + bool) \<times> table"
  reverseItem :: "result \<Rightarrow> string \<Rightarrow> table \<Rightarrow> (error + bool) \<times> table"
  getUserDetails :: "error + string \<times> string"

datatype message =
    NoNewRequests
  | SuccessfullyPosted string jsid
  | ErrorProcessingRequests error

record response =
  statusCode :: nat
  body :: message

definition createResponse :: "message \<Rightarrow> nat \<Rightarrow> response" where
  "createResponse msg code1 = \<lparr> statusCode = code1, body = msg \<rparr>"

definition orderTypeOf :: "result \<Rightarrow> string" where
  "orderTypeOf item1 = (if res_related_to_type item1 = ''FAILURE'' then ''Work Order'' else ''Planned Order'')"

text \<open>
  Steps 4.1 and 4.2 for one item: the response of Odoo (its truthiness) or the error
  thrown, and the table. Destructuring \<^verbatim>\<open>infraspeakData.data.attributes\<close> raises when the
  response has no \<^verbatim>\<open>data\<close>.
\<close>

definition processItem ::
  "remote \<Rightarrow> cost_center list \<Rightarrow> quant list \<Rightarrow> result \<Rightarrow> table \<Rightarrow> (error + bool) \<times> table" where
  "processItem env costCenters odooStock item1 tbl =
     (let orderType = orderTypeOf item1 in
      if res_state item1 = COMPLETED
      then
        (case getInfraspeakData env (res_related_to_id item1) orderType of
           Inl e \<Rightarrow> (Inl e, tbl)
         | Inr infraspeakData \<Rightarrow>
             (if (case infraspeakData of None \<Rightarrow> True | Some r \<Rightarrow> data r = None)
              then (Inl TypeError, tbl)
              else
                (case processWorkOrder (getOdooAccounts env) infraspeakData costCenters
                        (res_related_to_id item1) (res_request_id item1) tbl of
                   (Inl e, tbl1) \<Rightarrow> (Inl e, tbl1)
                 | (Inr processedWorkOrder, tbl1) \<Rightarrow>
                     (case prepareInventoryPosting (material processedWorkOrder) odooStock of
                        Inl e \<Rightarrow> (Inl e, tbl1)
                      | Inr preparedInventoryPosting \<Rightarrow>
                          postToOdoo env preparedInventoryPosting processedWorkOrder orderType
                            (res_state item1) (res_request_id item1) tbl1))))
      else reverseItem env item1 orderType tbl)"

text \<open>
  How a statement completes: it returns from the function, throws, or completes normally
  (and the loop goes on). \<open>forOf\<close> is \<^verbatim>\<open>for (let x of xs) body\<close>.
\<close>

datatype 'r completion = Return 'r | Throw error | Normal

fun forOf :: "('a \<Rightarrow> 's \<Rightarrow> 'r completion \<times> 's) \<Rightarrow> 'a list \<Rightarrow> 's \<Rightarrow> 'r completion \<times> 's" where
  "forOf loopBody [] s = (Normal, s)"
| "forOf loopBody (x # xs) s =
     (case loopBody x s of
        (Normal, s') \<Rightarrow> forOf loopBody xs s'
      | (c, s') \<Rightarrow> (c, s'))"

definition itemBody ::
  "remote \<Rightarrow> cost_center list \<Rightarrow> quant list \<Rightarrow> result \<Rightarrow> table \<Rightarrow> response completion \<times> table" where
  "itemBody env costCenters odooStock item1 tbl =
     (case processItem env costCenters odooStock item1 tbl of
        (Inl e, tbl1) \<Rightarrow> (Throw e, tbl1)
      | (Inr odooResponse, tbl1) \<Rightarrow>
          if odooResponse
          then (Return (createResponse
                  (SuccessfullyPosted (orderTypeOf item1) (res_related_to_id item1)) 200), tbl1)
          else (Throw PostingUnsuccessful, tbl1))"

text \<open>
  The handler resolves with a response, resolves with \<^verbatim>\<open>undefined\<close> (\<open>Inr None\<close>, when
  the loop ends without a \<^verbatim>\<open>return\<close>), or rejects (\<open>Inl\<close>, when \<^verbatim>\<open>getUserDetails\<close> throws
  inside the \<^verbatim>\<open>catch\<close> block). \<open>postItems\<close> is steps 3 and 4.
\<close>

definition catchBlock :: "remote \<Rightarrow> error \<Rightarrow> error + response option" where
  "catchBlock env e =
     (case getUserDetails env of
        Inl e' \<Rightarrow> Inl e'
      | Inr _ \<Rightarrow> Inr (Some (createResponse (ErrorProcessingRequests e) 500)))"

definition postItems :: "remote \<Rightarrow> result list \<Rightarrow> table \<Rightarrow> (error + response option) \<times> table" where
  "postItems env checkedWithDynamo tbl =
     (case getCostCentersInfraspeak env of
        Inl e \<Rightarrow> (catchBlock env e, tbl)
      | Inr costCenters \<Rightarrow>
          (case getOdooStockQuant env of
             Inl e \<Rightarrow> (catchBlock env e, tbl)
           | Inr odooStock \<Rightarrow>
               (case forOf (itemBody env costCenters odooStock) checkedWithDynamo tbl of
                  (Return r, tbl1) \<Rightarrow> (Inr (Some r), tbl1)
                | (Throw e, tbl1) \<Rightarrow> (catchBlock env e, tbl1)
                | (Normal, tbl1) \<Rightarrow> (Inr None, tbl1))))"

definition handler :: "remote \<Rightarrow> table \<Rightarrow> (error + response option) \<times> table" where
  "handler env tbl =
     (case getInfraspeakRequests env of
        Inl e \<Rightarrow> (catchBlock env e, tbl)
      | Inr payloadRequest \<Rightarrow>
          (case checkAndUpsertRequests payloadRequest tbl of
             (None, tbl1) \<Rightarrow> (Inr (Some (createResponse NoNewRequests 200)), tbl1)
           | (Some checkedWithDynamo, tbl1) \<Rightarrow> postItems env checkedWithDynamo tbl1))"

section \<open>Stock synchronisation (OdooSpeakStockSync.js)\<close>

text \<open>
  A JavaScript number that may be \<^verbatim>\<open>NaN\<close>, and \<^verbatim>\<open>parseInt(s, 10)\<close> on ASCII text: leading
  white space, an optional sign, then the longest run of digits; \<^verbatim>\<open>NaN\<close> without a digit.
\<close>

datatype jsnum = Num int | NaN

definition truthyJs :: "jsnum \<Rightarrow> bool" where
  "truthyJs v = (case v of Num n \<Rightarrow> n \<noteq> 0 | NaN \<Rightarrow> False)"

definition isDigit :: "char \<Rightarrow> bool" where
  "isDigit c = ((48::nat) \<le> of_char c \<and> of_char c \<le> (57::nat))"

definition digitsValue :: "string \<Rightarrow> nat" where
  "digitsValue ds = foldl (\<lambda>n c. 10 * n + (of_char c - 48)) 0 ds"

definition parseInt :: "string \<Rightarrow> jsnum" where
  "parseInt s =
     (let s1 = dropWhile isWhiteSpace s;
          negative = (case s1 of c # _ \<Rightarrow> c = CHR ''-'' | [] \<Rightarrow> False);
          s2 = (case s1 of c # cs \<Rightarrow> if c = CHR ''-'' \<or> c = CHR ''+'' then cs else s1 | [] \<Rightarrow> []);
          ds = takeWhile isDigit s2
      in if ds = [] then NaN
         else Num (if negative then - int (digitsValue ds) else int (digitsValue ds)))"

text \<open>
  The inputs of \<^verbatim>\<open>processOdooData\<close>: Odoo products (with the ids of their stock rows),
  Infraspeak materials (\<^verbatim>\<open>id\<close> and \<^verbatim>\<open>attributes?.code\<close>) and Infraspeak warehouses; and one
  element of its result.
\<close>

record product =
  stock_quant_ids :: "int list"
  standard_price :: int
  avg_cost :: int



record stock_to_post =
  MaterialId :: jsnum
  StandardCost :: int
  AverageCost :: int
  WarehouseId :: int
  AvailableQty :: int





text \<open>
  One element of \<^verbatim>\<open>warehouseQtyInfraspeak\<close>. \<^verbatim>\<open>stock_quantity\<close> goes through \<^verbatim>\<open>parseInt\<close>,
  which reads a number by its decimal rendering; it is that text here.
\<close>

record warehouse_quantity =
  qty_material_id :: "int option"
  qty_warehouse_id :: "int option"
  qty_stock_quantity :: string

text \<open>
  \<^verbatim>\<open>getMaterialQuantitiesFromInfraspeak\<close>: the quantity of the first record of the material
  in the warehouse, or \<^verbatim>\<open>null\<close> (\<open>None\<close>). \<^verbatim>\<open>===\<close> between the record's id and the number
  \<^verbatim>\<open>materialId\<close> holds when both are the same number.
\<close>

fun getMaterialQuantitiesFromInfraspeak ::
  "warehouse_quantity list \<Rightarrow> jsnum \<Rightarrow> int \<Rightarrow> jsnum option" where
  "getMaterialQuantitiesFromInfraspeak [] materialId1 warehouseId = None"
| "getMaterialQuantitiesFromInfraspeak (qty # rest) materialId1 warehouseId =
     (if (case materialId1 of Num n \<Rightarrow> qty_material_id qty = Some n | NaN \<Rightarrow> False)
         \<and> qty_warehouse_id qty = Some warehouseId
      then Some (parseInt (qty_stock_quantity qty))
      else getMaterialQuantitiesFromInfraspeak rest materialId1 warehouseId)"

text \<open>The payload of a stock movement (\<^verbatim>\<open>stockMovementPayloadAdd\<close> and \<^verbatim>\<open>...Consume\<close>).\<close>

datatype action = ADD | ABATE

record movement =
  mv_action :: action
  mv_warehouse_id :: int
  mv_mean_price :: int
  mv_material_id :: jsnum
  mv_quantity :: int

definition stockMovementPayloadAdd :: "jsnum \<Rightarrow> int \<Rightarrow> int \<Rightarrow> int \<Rightarrow> movement" where
  "stockMovementPayloadAdd materialId1 qty warehouseId averageCost =
     \<lparr> mv_action = ADD, mv_warehouse_id = warehouseId, mv_mean_price = averageCost,
       mv_material_id = materialId1, mv_quantity = qty \<rparr>"

definition stockMovementPayloadConsume :: "jsnum \<Rightarrow> int \<Rightarrow> int \<Rightarrow> int \<Rightarrow> movement" where
  "stockMovementPayloadConsume materialId1 qty warehouseId averageCost =
     \<lparr> mv_action = ABATE, mv_warehouse_id = warehouseId, mv_mean_price = averageCost,
       mv_material_id = materialId1, mv_quantity = qty \<rparr>"

text \<open>
  The callback of \<^verbatim>\<open>stockToPost.map\<close> in \<^verbatim>\<open>postStockToInfraspeak\<close>, up to the remote call:
  it posts a movement, returns \<^verbatim>\<open>null\<close>, or falls off its end (\<^verbatim>\<open>undefined\<close>, when the
  quantity read from Infraspeak is \<^verbatim>\<open>NaN\<close>).
\<close>

datatype decision = Post movement | ReturnNull | ReturnUndefined

definition stockDecision :: "warehouse_quantity list \<Rightarrow> stock_to_post \<Rightarrow> decision" where
  "stockDecision warehouseQtyInfraspeak warehouse =
     (let materialId1 = MaterialId warehouse;
          averageCost = AverageCost warehouse;
          warehouseId = WarehouseId warehouse;
          quantityOdoo = AvailableQty warehouse
      in if truthyJs materialId1
         then
           (let quantityInfraspeak =
                  getMaterialQuantitiesFromInfraspeak warehouseQtyInfraspeak materialId1 warehouseId
            in case quantityInfraspeak of
                 Some (Num q) \<Rightarrow>
                   if q \<noteq> 0
                   then (if quantityOdoo > q
                         then Post (stockMovementPayloadAdd materialId1 (quantityOdoo - q)
                                      warehouseId averageCost)
                         else if quantityOdoo < q
                         then Post (stockMovementPayloadConsume materialId1 (q - quantityOdoo)
                                      warehouseId averageCost)
                         else ReturnNull)
                   else Post (stockMovementPayloadAdd materialId1 quantityOdoo warehouseId averageCost)
               | Some NaN \<Rightarrow> ReturnUndefined
               | None \<Rightarrow>
                   Post (stockMovementPayloadAdd materialId1 quantityOdoo warehouseId averageCost))
         else ReturnNull)"

text \<open>
  \<^verbatim>\<open>postStockToInfraspeak\<close>: \<open>send\<close> is the remote POST, \<open>None\<close> when it throws (the
  \<^verbatim>\<open>catch\<close> turns that into \<^verbatim>\<open>null\<close>). The results other than \<^verbatim>\<open>null\<close> are kept: the
  responses, and \<^verbatim>\<open>undefined\<close> (\<open>None\<close> in the list returned).
\<close>

definition postStockToInfraspeak ::
  "(movement \<Rightarrow> 'r option) \<Rightarrow> stock_to_post list \<Rightarrow> warehouse_quantity list \<Rightarrow> 'r option list" where
  "postStockToInfraspeak send stockToPost warehouseQtyInfraspeak =
     List.map_filter
       (\<lambda>warehouse.
          case stockDecision warehouseQtyInfraspeak warehouse of
            Post m \<Rightarrow> (case send m of None \<Rightarrow> None | Some r \<Rightarrow> Some (Some r))
          | ReturnNull \<Rightarrow> None
          | ReturnUndefined \<Rightarrow> Some None)
       stockToPost"

section \<open>Sample data\<close>

text \<open>A request with a given id and \<^verbatim>\<open>date_updated\<close>, and a persisted item.\<close>

definition sampleRequest :: "jsid \<Rightarrow> string \<Rightarrow> attributes" where
  "sampleRequest rid updated =
     \<lparr> request_id = rid, type = ''MATERIAL_REQUEST'', related_to_type = ''FAILURE'',
       related_to_id = IdNum 77, date_created = ''2024-01-01'', date_updated = updated,
       operator_id = IdNum 5, cost_center_odoo = None, journal_move_id = None,
       stock_move_ids = None \<rparr>"

definition sampleItem :: "string \<Rightarrow> string \<Rightarrow> bool \<Rightarrow> int list option \<Rightarrow> item" where
  "sampleItem rid updated reversed moves =
     \<lparr> item_request_id = rid, item_type = ''MATERIAL_REQUEST'',
       item_related_to_type = ''FAILURE'', item_related_to_id = ''77'',
       item_state = COMPLETED, item_date_created = ''2024-01-01'',
       item_date_updated = updated, item_operator_id = ''5'', item_reversed = reversed,
       item_stock_move_ids = moves, item_account_move_id = None,
       item_cost_center_odoo = None \<rparr>"

definition samplePayload :: "attributes list" where
  "samplePayload = [sampleRequest (IdStr ''A1'') ''d1'', sampleRequest (IdNum 42) ''d2'']"

definition sampleTable :: table where
  "sampleTable =
     [sampleItem ''42'' ''d0'' True (Some [501]), sampleItem ''C3'' ''d0'' False None,
      sampleItem ''D4'' ''d0'' True None]"


text \<open>An order with one material and two stock entries for it.\<close>

definition sampleAccounts :: "error + odoo_account list" where
  "sampleAccounts = Inr [\<lparr> acc_id = 640, acc_code = ''CC-10'' \<rparr>]"

definition sampleCostCenters :: "cost_center list" where
  "sampleCostCenters = [\<lparr> cc_id = ''3'', cc_name = ''Maintenance'', cc_code = Some ''CC-10'' \<rparr>]"

definition sampleOrder :: "included list \<Rightarrow> infraspeak_response" where
  "sampleOrder incl =
     \<lparr> data = Some \<lparr> cost_center_id = Some (IdNum 3), cost_center_name = None \<rparr>,
       included = Some incl \<rparr>"

definition widget :: material_attributes where
  "widget = \<lparr> material_id = Some 9, code = Some ''WID-001'', full_code = Some ''F1.WID-001'',
              mean_price = 4 \<rparr>"

definition sampleIncluded :: "included list" where
  "sampleIncluded =
     [Material widget,
      Stock \<lparr> stock_material_id = 9, stock_quantity = Some 3, stock_mean_price = 7 \<rparr>,
      Other,
      Stock \<lparr> stock_material_id = 9, stock_quantity = Some 5, stock_mean_price = 11 \<rparr>]"

text \<open>A material entry without \<^verbatim>\<open>material_id\<close>, and one without \<^verbatim>\<open>code\<close>.\<close>

definition unidentified :: material_attributes where
  "unidentified = \<lparr> material_id = None, code = Some ''BOLT'', full_code = Some ''F2.BOLT'',
                    mean_price = 2 \<rparr>"

definition uncoded :: material_attributes where
  "uncoded = \<lparr> material_id = Some 12, code = None, full_code = Some ''F2.NUT'',
               mean_price = 2 \<rparr>"

text \<open>A stock snapshot, a record without bracketed code, a material line.\<close>

definition sampleStock :: "quant list" where
  "sampleStock =
     [\<lparr> quant_id = 31, quant_product_id = (201, ''Bolt M8 [BLT-8]''),
        quant_location_id = (8, ''WH/Stock''), quant_quantity = 50,
        quant_warehouse_id = Some (1, ''Main'') \<rparr>,
      \<lparr> quant_id = 32, quant_product_id = (202, ''Widget [wid-001]''),
        quant_location_id = (8, ''WH/Stock''), quant_quantity = 4,
        quant_warehouse_id = Some (1, ''Main'') \<rparr>]"

definition uncodedQuant :: quant where
  "uncodedQuant =
     \<lparr> quant_id = 30, quant_product_id = (200, ''Loose parts''),
       quant_location_id = (8, ''WH/Stock''), quant_quantity = 1,
       quant_warehouse_id = Some (1, ''Main'') \<rparr>"


definition sampleLine :: "int \<Rightarrow> material_line" where
  "sampleLine q =
     \<lparr> workOrderId = IdNum 77, materialId = 9, materialCode = ''WID-001'', folderCode = ''F1'',
       quantity = q, meanPrice = 7 \<rparr>"




text \<open>
  A translated order, a field quantity record, and remote systems that answer every read
  and accept every posting.
\<close>

definition sampleProcessed :: processed where
  "sampleProcessed = \<lparr> order_workOrderId = IdNum 77, costCenter = 640, material = [sampleLine 8] \<rparr>"

definition sampleFieldQuantity :: "string \<Rightarrow> warehouse_quantity" where
  "sampleFieldQuantity q = \<lparr> qty_material_id = Some 9, qty_warehouse_id = Some 2, qty_stock_quantity = q \<rparr>"

definition sampleLedgerStock :: "int \<Rightarrow> stock_to_post" where
  "sampleLedgerStock q =
     \<lparr> MaterialId = Num 9, StandardCost = 3, AverageCost = 2, WarehouseId = 2, AvailableQty = q \<rparr>"

definition sampleRemote :: remote where
  "sampleRemote =
     \<lparr> getInfraspeakRequests = Inr samplePayload,
       getCostCentersInfraspeak = Inr sampleCostCenters,
       getOdooStockQuant = Inr sampleStock,
       getInfraspeakData =
         (\<lambda>_ _. Inr (Some (sampleOrder
            [Material widget,
             Stock \<lparr> stock_material_id = 9, stock_quantity = Some 3, stock_mean_price = 7 \<rparr>]))),
       getOdooAccounts = sampleAccounts,
       postToOdoo =
         (\<lambda>_ _ _ _ requestId tbl.
            (Inr True,
             updateItem requestId
               (\<lambda>x. x\<lparr> item_stock_move_ids := Some [501], item_account_move_id := Some 900 \<rparr>)
               tbl)),
       reverseItem = (\<lambda>_ _ tbl. (Inr True, tbl)),
       getUserDetails = Inr (''Ann'', ''ann@example.org'') \<rparr>"

text \<open>What one run of \<^verbatim>\<open>checkAndUpsertRequests\<close> makes of the sample payload and table.\<close>

definition sampleInserted :: result where
  "sampleInserted =
     \<lparr> res_cost_center_odoo = Some [], res_journal_move_id = Some [],
       res_request_id = ''A1'', res_related_to_id = IdNum 77,
       res_related_to_type = ''FAILURE'', res_stock_move_ids = Some [],
       res_state = COMPLETED, res_upserted = Some INSERTED \<rparr>"

definition sampleUpdated :: result where
  "sampleUpdated =
     \<lparr> res_cost_center_odoo = Some [], res_journal_move_id = Some [],
       res_request_id = ''42'', res_related_to_id = IdNum 77,
       res_related_to_type = ''FAILURE'', res_stock_move_ids = Some [501],
       res_state = COMPLETED, res_upserted = Some UPDATED \<rparr>"

definition sampleReversed :: result where
  "sampleReversed =
     \<lparr> res_cost_center_odoo = None, res_journal_move_id = None,
       res_request_id = ''C3'', res_related_to_id = IdStr ''77'',
       res_related_to_type = ''FAILURE'', res_stock_move_ids = None,
       res_state = REVERSED, res_upserted = None \<rparr>"

definition sampleTableAfter :: table where
  "sampleTableAfter =
     [sampleItem ''42'' ''d2'' False (Some [501]), sampleItem ''C3'' ''d0'' True None,
      sampleItem ''D4'' ''d0'' True None, sampleItem ''A1'' ''d1'' False None]"

section \<open>Properties\<close>

subsection \<open>The table operations\<close>

lemma keys_updateItem:
  "(\<And>x. item_request_id (f x) = item_request_id x) \<Longrightarrow> keys (updateItem k f tbl) = keys tbl"
  by (induction tbl) (auto simp: updateItem_def)

lemma itemFor_updateItem:
  "(\<And>x. item_request_id (f x) = item_request_id x) \<Longrightarrow>
   itemFor k' (updateItem k f tbl) =
     (if k' = k then map_option f (itemFor k tbl) else itemFor k' tbl)"
  by (induction tbl) (auto simp: updateItem_def)

lemma itemFor_None_iff: "itemFor k tbl = None \<longleftrightarrow> k \<notin> set (keys tbl)"
  by (induction tbl) auto

lemma itemFor_key: "itemFor k tbl = Some e \<Longrightarrow> item_request_id e = k \<and> e \<in> set tbl"
  by (induction tbl) (auto split: if_splits)

lemma itemFor_append:
  "itemFor k (xs @ ys) = (case itemFor k xs of None \<Rightarrow> itemFor k ys | Some e \<Rightarrow> Some e)"
  by (induction xs) auto

lemma itemFor_replace:
  "item_request_id it = k \<Longrightarrow>
   itemFor k' (map (\<lambda>x. if item_request_id x = k then it else x) tbl) =
     (if k' = k then (case itemFor k tbl of None \<Rightarrow> None | Some _ \<Rightarrow> Some it)
      else itemFor k' tbl)"
  by (induction tbl) auto

lemma itemFor_putItem:
  "itemFor k' (putItem it tbl) = (if k' = item_request_id it then Some it else itemFor k' tbl)"
proof (cases "item_request_id it \<in> set (keys tbl)")
  case True
  then obtain e where "itemFor (item_request_id it) tbl = Some e"
    using itemFor_None_iff[of "item_request_id it" tbl]
    by (cases "itemFor (item_request_id it) tbl") auto
  with True show ?thesis
    using itemFor_replace[of it "item_request_id it" k' tbl]
    by (simp add: putItem_def)
next
  case False
  then have "itemFor (item_request_id it) tbl = None"
    using itemFor_None_iff[of "item_request_id it" tbl] by simp
  with False show ?thesis
    by (auto simp: putItem_def itemFor_append split: option.splits)
qed

lemma keys_putItem:
  "keys (putItem it tbl) =
     (if item_request_id it \<in> set (keys tbl) then keys tbl
      else keys tbl @ [item_request_id it])"
proof -
  have "keys (map (\<lambda>x. if item_request_id x = item_request_id it then it else x) tbl) = keys tbl"
    by (induction tbl) auto
  then show ?thesis by (simp add: putItem_def)
qed

lemma itemFor_distinct:
  "distinct (keys tbl) \<Longrightarrow> it \<in> set tbl \<Longrightarrow> itemFor (item_request_id it) tbl = Some it"
  by (induction tbl) (auto simp: rev_image_eqI)

subsection \<open>The two loops in closed form\<close>

lemma upsertBody_eq:
  "upsertBody ex a (tbl, rs) = (upsertTable ex a tbl, rs @ classifyRequest ex a)"
  by (simp add: upsertBody_def upsertTable_def classifyRequest_def Let_def split: option.splits)

lemma fold_upsertBody:
  "fold (upsertBody ex) batch (tbl, rs) =
     (fold (upsertTable ex) batch tbl, rs @ concat (map (classifyRequest ex) batch))"
  by (induction batch arbitrary: tbl rs) (simp_all add: upsertBody_eq)

lemma fold_reverseBody:
  "fold (reverseBody ids) its (tbl, rs) =
     (fold (\<lambda>it. markAsReversed (item_request_id it))
        (filter (\<lambda>it. item_request_id it \<notin> ids \<and> \<not> item_reversed it) its) tbl,
      rs @ map reversedResult (filter (\<lambda>it. item_request_id it \<notin> ids \<and> \<not> item_reversed it) its))"
  by (induction its arbitrary: tbl rs) (simp_all add: reverseBody_def)

lemma runLoops_eq:
  "runLoops batch tbl =
     (fold (\<lambda>it. markAsReversed (item_request_id it)) (absentItems batch tbl)
        (fold (upsertTable tbl) batch tbl),
      concat (map (classifyRequest tbl) batch) @ map reversedResult (absentItems batch tbl))"
  by (simp add: runLoops_def getAllRequestsFromDynamo_def fold_upsertBody fold_reverseBody
      absentItems_def Let_def)

subsection \<open>Effect of the first loop on the table\<close>

lemma itemFor_upsertTable_other:
  "k \<noteq> keyOf a \<Longrightarrow> itemFor k (upsertTable ex a tbl) = itemFor k tbl"
  by (simp add: upsertTable_def insertRequestToDynamo_def updateRequestInDynamo_def
      resetReversedFlag_def itemFor_putItem itemFor_updateItem Let_def split: option.splits)

lemma itemFor_upsertTable_same:
  "itemFor (keyOf a) tbl = itemFor (keyOf a) ex \<Longrightarrow>
   itemFor (keyOf a) (upsertTable ex a tbl) = Some (expectedItem ex a)"
  by (auto simp: upsertTable_def expectedItem_def insertRequestToDynamo_def
      updateRequestInDynamo_def resetReversedFlag_def itemFor_putItem itemFor_updateItem Let_def
      split: option.splits)

lemma itemFor_fold_upsertTable_other:
  "k \<notin> set (map keyOf batch) \<Longrightarrow> itemFor k (fold (upsertTable ex) batch tbl) = itemFor k tbl"
  by (induction batch arbitrary: tbl) (auto simp: itemFor_upsertTable_other)

lemma itemFor_fold_upsertTable_same:
  "distinct (map keyOf batch) \<Longrightarrow> a \<in> set batch \<Longrightarrow>
   itemFor (keyOf a) tbl = itemFor (keyOf a) ex \<Longrightarrow>
   itemFor (keyOf a) (fold (upsertTable ex) batch tbl) = Some (expectedItem ex a)"
proof (induction batch arbitrary: tbl)
  case Nil
  then show ?case by simp
next
  case (Cons b batch)
  show ?case
  proof (cases "a = b")
    case True
    with Cons.prems have "keyOf a \<notin> set (map keyOf batch)" by auto
    then show ?thesis
      using True Cons.prems(3)
      by (simp add: itemFor_fold_upsertTable_other itemFor_upsertTable_same)
  next
    case False
    with Cons.prems have in_rest: "a \<in> set batch" by simp
    with Cons.prems(1) have ne: "keyOf a \<noteq> keyOf b"
      by (auto simp: image_iff)
    have "itemFor (keyOf a) (upsertTable ex b tbl) = itemFor (keyOf a) ex"
      using ne Cons.prems(3) by (simp add: itemFor_upsertTable_other)
    then show ?thesis
      using Cons.IH[of "upsertTable ex b tbl"] Cons.prems(1) in_rest by simp
  qed
qed


lemma keys_upsertTable:
  "keys (upsertTable ex a tbl) =
     (if keyOf a \<in> set (keys tbl) \<or> itemFor (keyOf a) ex \<noteq> None then keys tbl
      else keys tbl @ [keyOf a])"
  by (auto simp: upsertTable_def insertRequestToDynamo_def updateRequestInDynamo_def
      resetReversedFlag_def keys_putItem keys_updateItem Let_def split: option.splits)

lemma distinct_fold_upsertTable:
  "distinct (keys tbl) \<Longrightarrow> distinct (keys (fold (upsertTable ex) batch tbl))"
  by (induction batch arbitrary: tbl) (auto simp: keys_upsertTable)

lemma keys_fold_upsertTable:
  "\<exists>new. keys (fold (upsertTable ex) batch tbl) = keys tbl @ new \<and> set new \<subseteq> set (map keyOf batch)"
proof (induction batch arbitrary: tbl)
  case Nil
  then show ?case by simp
next
  case (Cons b batch)
  obtain new where new: "keys (fold (upsertTable ex) batch (upsertTable ex b tbl)) =
      keys (upsertTable ex b tbl) @ new" "set new \<subseteq> set (map keyOf batch)"
    using Cons.IH[of "upsertTable ex b tbl"] by blast
  show ?case
  proof (cases "keyOf b \<in> set (keys tbl) \<or> itemFor (keyOf b) ex \<noteq> None")
    case True
    then have "keys (upsertTable ex b tbl) = keys tbl" by (simp add: keys_upsertTable)
    with new show ?thesis by auto
  next
    case False
    then have "keys (upsertTable ex b tbl) = keys tbl @ [keyOf b]" by (simp add: keys_upsertTable)
    with new have "keys (fold (upsertTable ex) (b # batch) tbl) = keys tbl @ (keyOf b # new)"
      by simp
    moreover have "set (keyOf b # new) \<subseteq> set (map keyOf (b # batch))"
      using new(2) by auto
    ultimately show ?thesis by blast
  qed
qed

lemma keys_fold_mark:
  "keys (fold (\<lambda>it. markAsReversed (item_request_id it)) its tbl) = keys tbl"
  by (induction its arbitrary: tbl) (simp_all add: markAsReversed_def keys_updateItem)

lemma itemFor_markAsReversed:
  "itemFor k (markAsReversed k' tbl) =
     (if k = k' then map_option (\<lambda>x. x\<lparr> item_reversed := True \<rparr>) (itemFor k tbl)
      else itemFor k tbl)"
  by (simp add: markAsReversed_def itemFor_updateItem)

lemma itemFor_fold_mark:
  "itemFor k (fold (\<lambda>it. markAsReversed (item_request_id it)) its tbl) =
     (if k \<in> set (keys its) then map_option (\<lambda>x. x\<lparr> item_reversed := True \<rparr>) (itemFor k tbl)
      else itemFor k tbl)"
proof (induction its arbitrary: tbl)
  case Nil
  then show ?case by simp
next
  case (Cons it its)
  show ?case
    by (cases "itemFor k tbl") (auto simp: Cons.IH itemFor_markAsReversed)
qed

lemma liveAt_upsertTable_preserved:
  "liveAt k tbl \<Longrightarrow> liveAt k (upsertTable ex a tbl)"
  by (cases "k = keyOf a")
     (auto simp: liveAt_def upsertTable_def insertRequestToDynamo_def updateRequestInDynamo_def
      resetReversedFlag_def itemFor_putItem itemFor_updateItem Let_def split: option.splits)

lemma liveAt_fold_upsertTable_preserved:
  "liveAt k tbl \<Longrightarrow> liveAt k (fold (upsertTable ex) batch tbl)"
  by (induction batch arbitrary: tbl) (simp_all add: liveAt_upsertTable_preserved)

lemma present_upsertTable_preserved:
  "itemFor k tbl \<noteq> None \<Longrightarrow> itemFor k (upsertTable ex a tbl) \<noteq> None"
  by (cases "k = keyOf a")
     (auto simp: upsertTable_def insertRequestToDynamo_def updateRequestInDynamo_def
      resetReversedFlag_def itemFor_putItem itemFor_updateItem Let_def split: option.splits)

lemma liveAt_upsertTable_established:
  assumes "itemFor (keyOf a) ex \<noteq> None \<Longrightarrow> itemFor (keyOf a) tbl \<noteq> None"
    and "\<And>e. itemFor (keyOf a) ex = Some e \<Longrightarrow> \<not> item_reversed e \<Longrightarrow> liveAt (keyOf a) tbl"
  shows "liveAt (keyOf a) (upsertTable ex a tbl)"
proof (cases "itemFor (keyOf a) ex")
  case None
  then show ?thesis
    by (simp add: liveAt_def upsertTable_def insertRequestToDynamo_def itemFor_putItem)
next
  case (Some e)
  then obtain e' where e': "itemFor (keyOf a) tbl = Some e'"
    using assms(1) by auto
  show ?thesis
  proof (cases "item_reversed e")
    case True
    with Some e' show ?thesis
      by (simp add: liveAt_def upsertTable_def updateRequestInDynamo_def
          resetReversedFlag_def itemFor_updateItem Let_def)
  next
    case False
    then have "liveAt (keyOf a) tbl" using assms(2) Some by simp
    then show ?thesis by (rule liveAt_upsertTable_preserved)
  qed
qed

lemma liveAt_fold_upsertTable:
  assumes "a \<in> set batch"
    and "\<And>k. itemFor k ex \<noteq> None \<Longrightarrow> itemFor k tbl \<noteq> None"
    and "\<And>k e. itemFor k ex = Some e \<Longrightarrow> \<not> item_reversed e \<Longrightarrow> liveAt k tbl"
  shows "liveAt (keyOf a) (fold (upsertTable ex) batch tbl)"
  using assms
proof (induction batch arbitrary: tbl)
  case Nil
  then show ?case by simp
next
  case (Cons b batch)
  show ?case
  proof (cases "a = b")
    case True
    have "liveAt (keyOf a) (upsertTable ex a tbl)"
      using Cons.prems(2,3) by (intro liveAt_upsertTable_established) blast+
    then show ?thesis
      using True by (simp add: liveAt_fold_upsertTable_preserved)
  next
    case False
    with Cons.prems(1) have "a \<in> set batch" by simp
    moreover have "itemFor k (upsertTable ex b tbl) \<noteq> None" if "itemFor k ex \<noteq> None" for k
      using that Cons.prems(2) by (intro present_upsertTable_preserved)
    moreover have "liveAt k (upsertTable ex b tbl)"
      if "itemFor k ex = Some e" "\<not> item_reversed e" for k e
      using that Cons.prems(3) by (intro liveAt_upsertTable_preserved)
    ultimately have "liveAt (keyOf a) (fold (upsertTable ex) batch (upsertTable ex b tbl))"
      by (rule Cons.IH)
    then show ?thesis by simp
  qed
qed

subsection \<open>One run of the two loops\<close>

lemma key_absentItems:
  "k \<in> set (keys (absentItems batch tbl)) \<Longrightarrow> k \<notin> set (map keyOf batch)"
  by (auto simp: absentItems_def)

lemma itemFor_runLoops_present:
  assumes "distinct (map keyOf batch)" "a \<in> set batch"
  shows "itemFor (keyOf a) (fst (runLoops batch tbl)) = Some (expectedItem tbl a)"
proof -
  have "keyOf a \<notin> set (keys (absentItems batch tbl))"
    using assms(2) key_absentItems[of "keyOf a" batch tbl] by auto
  then show ?thesis
    using assms by (simp add: runLoops_eq itemFor_fold_mark itemFor_fold_upsertTable_same)
qed

lemma itemFor_runLoops_absent:
  assumes "k \<notin> set (map keyOf batch)"
  shows "itemFor k (fst (runLoops batch tbl)) =
     (if k \<in> set (keys (absentItems batch tbl))
      then map_option (\<lambda>x. x\<lparr> item_reversed := True \<rparr>) (itemFor k tbl) else itemFor k tbl)"
  using assms by (simp add: runLoops_eq itemFor_fold_mark itemFor_fold_upsertTable_other)

lemma keys_runLoops:
  "\<exists>new. keys (fst (runLoops batch tbl)) = keys tbl @ new \<and> set new \<subseteq> set (map keyOf batch)"
  using keys_fold_upsertTable[of tbl batch tbl] by (simp add: runLoops_eq keys_fold_mark)

lemma distinct_runLoops:
  "distinct (keys tbl) \<Longrightarrow> distinct (keys (fst (runLoops batch tbl)))"
  by (simp add: runLoops_eq keys_fold_mark distinct_fold_upsertTable)

lemma liveAt_runLoops:
  assumes "a \<in> set batch"
  shows "liveAt (keyOf a) (fst (runLoops batch tbl))"
proof -
  have "liveAt (keyOf a) (fold (upsertTable tbl) batch tbl)"
    using assms by (rule liveAt_fold_upsertTable) (auto simp: liveAt_def)
  moreover have "keyOf a \<notin> set (keys (absentItems batch tbl))"
    using assms key_absentItems[of "keyOf a" batch tbl] by auto
  ultimately show ?thesis
    by (simp add: runLoops_eq liveAt_def itemFor_fold_mark)
qed

lemma checkAndUpsertRequests_eq:
  "checkAndUpsertRequests batch tbl =
     (if snd (runLoops batch tbl) = [] then None else Some (snd (runLoops batch tbl)),
      fst (runLoops batch tbl))"
  by (simp add: checkAndUpsertRequests_def split: prod.splits)

subsection \<open>Evaluation of the sample data\<close>

lemma decimal_samples: "decimal 77 = ''77''" "decimal 5 = ''5''" "decimal 42 = ''42''"
  by (simp_all add: decimal.simps digit_def)

lemmas sample_defs = samplePayload_def sampleTable_def sampleRequest_def sampleItem_def
  decimal_samples

lemmas order_defs = sampleAccounts_def sampleCostCenters_def sampleOrder_def widget_def
  sampleIncluded_def unidentified_def uncoded_def

subsection \<open>Classification of the incoming requests\<close>

text \<open>
  Claim C1. Whatever the payload and the table are, the \<^verbatim>\<open>results\<close> array of
  \<^verbatim>\<open>checkAndUpsertRequests\<close> is, request by request in payload order, what the request
  contributes against the table as scanned at the start, looked up by the
  string-normalised \<^verbatim>\<open>request_id\<close>: one item with state COMPLETED, upserted INSERTED and
  an empty \<^verbatim>\<open>stock_move_ids\<close> when the table has no item for the id; one item with
  upserted UPDATED carrying the \<^verbatim>\<open>stock_move_ids\<close> of the persisted item when that
  item's \<^verbatim>\<open>date_updated\<close> differs from the incoming one; nothing when it is the same.
  The items of the retracted requests follow. The function returns \<^verbatim>\<open>null\<close> exactly
  when this array is empty, and the array itself otherwise. When the normalised ids of
  the payload are pairwise distinct, the table afterwards holds, for each request, the
  inserted item (state COMPLETED, \<^verbatim>\<open>reversed\<close> false), the updated item, or the old
  item with its \<^verbatim>\<open>reversed\<close> flag cleared. In every case, also for a payload that
  repeats an id, the table afterwards holds an item for the id of each request, and the
  \<^verbatim>\<open>reversed\<close> flag of that item is false.
\<close>

theorem checkAndUpsertRequests_classifies:
  "(snd (runLoops payloadRequest tbl) =
     concat (map (\<lambda>a.
       case find (\<lambda>it. item_request_id it = String (request_id a)) tbl of
         None \<Rightarrow>
           [\<lparr> res_cost_center_odoo = Some (orEmpty (cost_center_odoo a)),
              res_journal_move_id = Some (orEmpty (journal_move_id a)),
              res_request_id = String (request_id a),
              res_related_to_id = related_to_id a,
              res_related_to_type = related_to_type a,
              res_stock_move_ids = Some [],
              res_state = COMPLETED,
              res_upserted = Some INSERTED \<rparr>]
       | Some e \<Rightarrow>
           if item_date_updated e \<noteq> date_updated a
           then [\<lparr> res_cost_center_odoo = Some (orEmpty (cost_center_odoo a)),
                   res_journal_move_id = Some (orEmpty (journal_move_id a)),
                   res_request_id = String (request_id a),
                   res_related_to_id = related_to_id a,
                   res_related_to_type = related_to_type a,
                   res_stock_move_ids =
                     Some (case item_stock_move_ids e of None \<Rightarrow> [] | Some ids \<Rightarrow> ids),
                   res_state = COMPLETED,
                   res_upserted = Some UPDATED \<rparr>]
           else []) payloadRequest)
     @ map reversedResult (absentItems payloadRequest tbl))
   \<and> fst (checkAndUpsertRequests payloadRequest tbl) =
       (if snd (runLoops payloadRequest tbl) = [] then None
        else Some (snd (runLoops payloadRequest tbl)))
   \<and> (distinct (map (\<lambda>a. String (request_id a)) payloadRequest) \<longrightarrow>
        (\<forall>a \<in> set payloadRequest.
           find (\<lambda>it. item_request_id it = String (request_id a))
             (snd (checkAndUpsertRequests payloadRequest tbl)) =
           Some (case find (\<lambda>it. item_request_id it = String (request_id a)) tbl of
                   None \<Rightarrow>
                     \<lparr> item_request_id = String (request_id a), item_type = type a,
                       item_related_to_type = related_to_type a,
                       item_related_to_id = String (related_to_id a),
                       item_state = COMPLETED,
                       item_date_created = date_created a,
                       item_date_updated = date_updated a,
                       item_operator_id = String (operator_id a),
                       item_reversed = False,
                       item_stock_move_ids = None, item_account_move_id = None,
                       item_cost_center_odoo = None \<rparr>
                 | Some e \<Rightarrow>
                     if item_date_updated e \<noteq> date_updated a
                     then e\<lparr> item_type := type a,
                             item_related_to_type := related_to_type a,
                             item_related_to_id := String (related_to_id a),
                             item_state := COMPLETED,
                             item_date_created := date_created a,
                             item_date_updated := date_updated a,
                             item_operator_id := String (operator_id a),
                             item_reversed := False \<rparr>
                     else e\<lparr> item_reversed := False \<rparr>)))
   \<and> (\<forall>a \<in> set payloadRequest.
        case find (\<lambda>it. item_request_id it = String (request_id a))
               (snd (checkAndUpsertRequests payloadRequest tbl)) of
          None \<Rightarrow> False
        | Some e \<Rightarrow> \<not> item_reversed e)"
  (is "?results \<and> ?null \<and> ?table \<and> ?live")
proof -
  let ?tbl' = "snd (checkAndUpsertRequests payloadRequest tbl)"
  have "classifyRequest tbl = (\<lambda>a.
       case find (\<lambda>it. item_request_id it = String (request_id a)) tbl of
         None \<Rightarrow>
           [\<lparr> res_cost_center_odoo = Some (orEmpty (cost_center_odoo a)),
              res_journal_move_id = Some (orEmpty (journal_move_id a)),
              res_request_id = String (request_id a),
              res_related_to_id = related_to_id a,
              res_related_to_type = related_to_type a,
              res_stock_move_ids = Some [],
              res_state = COMPLETED,
              res_upserted = Some INSERTED \<rparr>]
       | Some e \<Rightarrow>
           if item_date_updated e \<noteq> date_updated a
           then [\<lparr> res_cost_center_odoo = Some (orEmpty (cost_center_odoo a)),
                   res_journal_move_id = Some (orEmpty (journal_move_id a)),
                   res_request_id = String (request_id a),
                   res_related_to_id = related_to_id a,
                   res_related_to_type = related_to_type a,
                   res_stock_move_ids =
                     Some (case item_stock_move_ids e of None \<Rightarrow> [] | Some ids \<Rightarrow> ids),
                   res_state = COMPLETED,
                   res_upserted = Some UPDATED \<rparr>]
           else [])"
    by (simp add: classifyRequest_def fun_eq_iff insertedResult_def updatedResult_def
        split: option.splits)
  then have results: ?results
    by (simp add: runLoops_eq)
  have null: ?null
    by (simp add: checkAndUpsertRequests_eq)
  have table: ?table
  proof (intro impI ballI)
    fix a
    assume "distinct (map (\<lambda>a. String (request_id a)) payloadRequest)" "a \<in> set payloadRequest"
    then have "itemFor (keyOf a) ?tbl' = Some (expectedItem tbl a)"
      by (simp add: checkAndUpsertRequests_eq itemFor_runLoops_present)
    then show "itemFor (keyOf a) ?tbl' = Some (case itemFor (keyOf a) tbl of
                   None \<Rightarrow>
                     \<lparr> item_request_id = String (request_id a), item_type = type a,
                       item_related_to_type = related_to_type a,
                       item_related_to_id = String (related_to_id a),
                       item_state = COMPLETED,
                       item_date_created = date_created a,
                       item_date_updated = date_updated a,
                       item_operator_id = String (operator_id a),
                       item_reversed = False,
                       item_stock_move_ids = None, item_account_move_id = None,
                       item_cost_center_odoo = None \<rparr>
                 | Some e \<Rightarrow>
                     if item_date_updated e \<noteq> date_updated a
                     then e\<lparr> item_type := type a,
                             item_related_to_type := related_to_type a,
                             item_related_to_id := String (related_to_id a),
                             item_state := COMPLETED,
                             item_date_created := date_created a,
                             item_date_updated := date_updated a,
                             item_operator_id := String (operator_id a),
                             item_reversed := False \<rparr>
                     else e\<lparr> item_reversed := False \<rparr>)"
      by (simp add: expectedItem_def)
  qed
  have live: ?live
    using liveAt_runLoops[of _ payloadRequest tbl]
    by (simp add: checkAndUpsertRequests_eq liveAt_def)
  from results null table live show ?thesis by blast
qed

theorem checkAndUpsertRequests_classifies_witness:
  "distinct (map (\<lambda>a. String (request_id a)) samplePayload)
   \<and> fst (checkAndUpsertRequests samplePayload sampleTable) =
       Some [\<lparr> res_cost_center_odoo = Some [], res_journal_move_id = Some [],
               res_request_id = ''A1'', res_related_to_id = IdNum 77,
               res_related_to_type = ''FAILURE'', res_stock_move_ids = Some [],
               res_state = COMPLETED, res_upserted = Some INSERTED \<rparr>,
             \<lparr> res_cost_center_odoo = Some [], res_journal_move_id = Some [],
               res_request_id = ''42'', res_related_to_id = IdNum 77,
               res_related_to_type = ''FAILURE'', res_stock_move_ids = Some [501],
               res_state = COMPLETED, res_upserted = Some UPDATED \<rparr>,
             \<lparr> res_cost_center_odoo = None, res_journal_move_id = None,
               res_request_id = ''C3'', res_related_to_id = IdStr ''77'',
               res_related_to_type = ''FAILURE'', res_stock_move_ids = None,
               res_state = REVERSED, res_upserted = None \<rparr>]
   \<and> find (\<lambda>it. item_request_id it = ''A1'')
         (snd (checkAndUpsertRequests samplePayload sampleTable)) =
       Some (sampleItem ''A1'' ''d1'' False None)
   \<and> find (\<lambda>it. item_request_id it = ''42'')
         (snd (checkAndUpsertRequests samplePayload sampleTable)) =
       Some (sampleItem ''42'' ''d2'' False (Some [501]))"
proof -
  have d: "distinct (map (\<lambda>a. String (request_id a)) samplePayload)"
    by (simp add: sample_defs)
  show ?thesis
    using d checkAndUpsertRequests_classifies[of samplePayload sampleTable]
    by (simp add: sample_defs reversedResult_def absentItems_def orEmpty_def)
qed

subsection \<open>Retraction\<close>

text \<open>
  Claim C2. Let the table hold one item per \<^verbatim>\<open>request_id\<close> (the key of the table).
  After one run of \<^verbatim>\<open>checkAndUpsertRequests\<close>: every persisted item whose id is absent
  from the payload and that was not reversed is stored with \<^verbatim>\<open>reversed\<close> true (and
  otherwise unchanged), and the returned list holds its item with state REVERSED; every
  item of the table whose id is in the payload has \<^verbatim>\<open>reversed\<close> false; an item that was
  already reversed and is still absent is stored unchanged and no item of the
  \<^verbatim>\<open>results\<close> array carries its id; and the keys of the old table are a prefix of the
  keys of the new one, so that no persisted item is deleted.
\<close>

theorem checkAndUpsertRequests_reversal:
  assumes "distinct (map item_request_id tbl)"
  shows "(\<forall>it \<in> set tbl.
            item_request_id it \<notin> set (map (\<lambda>a. String (request_id a)) payloadRequest)
            \<and> \<not> item_reversed it \<longrightarrow>
            find (\<lambda>x. item_request_id x = item_request_id it)
              (snd (checkAndUpsertRequests payloadRequest tbl)) = Some (it\<lparr> item_reversed := True \<rparr>)
            \<and> (\<exists>results. fst (checkAndUpsertRequests payloadRequest tbl) = Some results
                 \<and> \<lparr> res_cost_center_odoo = None, res_journal_move_id = None,
                      res_request_id = item_request_id it,
                      res_related_to_id = IdStr (item_related_to_id it),
                      res_related_to_type = item_related_to_type it,
                      res_stock_move_ids = None, res_state = REVERSED,
                      res_upserted = None \<rparr> \<in> set results))
       \<and> (\<forall>it' \<in> set (snd (checkAndUpsertRequests payloadRequest tbl)).
            item_request_id it' \<in> set (map (\<lambda>a. String (request_id a)) payloadRequest)
            \<longrightarrow> \<not> item_reversed it')
       \<and> (\<forall>it \<in> set tbl.
            item_request_id it \<notin> set (map (\<lambda>a. String (request_id a)) payloadRequest)
            \<and> item_reversed it \<longrightarrow>
            it \<in> set (snd (checkAndUpsertRequests payloadRequest tbl))
            \<and> (\<forall>r \<in> set (snd (runLoops payloadRequest tbl)).
                 res_request_id r \<noteq> item_request_id it))
       \<and> (\<exists>new. map item_request_id (snd (checkAndUpsertRequests payloadRequest tbl)) =
                  map item_request_id tbl @ new)"
  (is "?retracted \<and> ?present \<and> ?still \<and> ?kept")
proof -
  let ?ids = "set (map keyOf payloadRequest)"
  let ?tbl' = "snd (checkAndUpsertRequests payloadRequest tbl)"
  have tbl': "?tbl' = fst (runLoops payloadRequest tbl)"
    by (simp add: checkAndUpsertRequests_eq)
  have dist': "distinct (keys ?tbl')"
    using assms by (simp add: tbl' distinct_runLoops)
  have retracted: ?retracted
  proof (intro ballI impI)
    fix it
    assume it: "it \<in> set tbl" and "item_request_id it \<notin> ?ids \<and> \<not> item_reversed it"
    then have absent: "item_request_id it \<notin> ?ids" and live: "\<not> item_reversed it"
      by simp_all
    have mem: "it \<in> set (absentItems payloadRequest tbl)"
      using it absent live by (simp add: absentItems_def)
    then have "item_request_id it \<in> set (keys (absentItems payloadRequest tbl))"
      by simp
    then have stored: "itemFor (item_request_id it) ?tbl' = Some (it\<lparr> item_reversed := True \<rparr>)"
      using absent itemFor_distinct[OF assms it]
      by (simp add: tbl' itemFor_runLoops_absent del: set_map)
    have "reversedResult it \<in> set (snd (runLoops payloadRequest tbl))"
      using mem by (simp add: runLoops_eq)
    then have "\<exists>results. fst (checkAndUpsertRequests payloadRequest tbl) = Some results
        \<and> reversedResult it \<in> set results"
      by (auto simp: checkAndUpsertRequests_eq)
    with stored show "itemFor (item_request_id it) ?tbl' = Some (it\<lparr> item_reversed := True \<rparr>)
       \<and> (\<exists>results. fst (checkAndUpsertRequests payloadRequest tbl) = Some results
            \<and> \<lparr> res_cost_center_odoo = None, res_journal_move_id = None,
                 res_request_id = item_request_id it,
                 res_related_to_id = IdStr (item_related_to_id it),
                 res_related_to_type = item_related_to_type it,
                 res_stock_move_ids = None, res_state = REVERSED,
                 res_upserted = None \<rparr> \<in> set results)"
      by (simp add: reversedResult_def)
  qed
  have present: ?present
  proof (intro ballI impI)
    fix it'
    assume it': "it' \<in> set ?tbl'" and "item_request_id it' \<in> ?ids"
    then obtain a where a: "a \<in> set payloadRequest" "keyOf a = item_request_id it'"
      by auto
    have "liveAt (keyOf a) ?tbl'"
      using a(1) by (simp add: tbl' liveAt_runLoops)
    moreover have "itemFor (keyOf a) ?tbl' = Some it'"
      using itemFor_distinct[OF dist' it'] a(2) by simp
    ultimately show "\<not> item_reversed it'"
      by (simp add: liveAt_def)
  qed
  have still: ?still
  proof (intro ballI impI)
    fix it
    assume it: "it \<in> set tbl" and "item_request_id it \<notin> ?ids \<and> item_reversed it"
    then have absent: "item_request_id it \<notin> ?ids" and rev: "item_reversed it"
      by simp_all
    have notmarked: "item_request_id it \<notin> set (keys (absentItems payloadRequest tbl))"
    proof
      assume "item_request_id it \<in> set (keys (absentItems payloadRequest tbl))"
      then obtain x where x: "x \<in> set tbl" "\<not> item_reversed x" "item_request_id x = item_request_id it"
        by (auto simp: absentItems_def)
      then have "x = it"
        using assms it by (auto simp: distinct_map inj_on_def)
      with x rev show False by simp
    qed
    have "itemFor (item_request_id it) ?tbl' = Some it"
      using absent notmarked itemFor_distinct[OF assms it]
      by (simp add: tbl' itemFor_runLoops_absent del: set_map)
    then have kept: "it \<in> set ?tbl'"
      using itemFor_key by blast
    have "res_request_id r \<noteq> item_request_id it"
      if "r \<in> set (snd (runLoops payloadRequest tbl))" for r
    proof -
      from that consider a where "a \<in> set payloadRequest" "r \<in> set (classifyRequest tbl a)"
        | x where "x \<in> set (absentItems payloadRequest tbl)" "r = reversedResult x"
        by (auto simp: runLoops_eq)
      then show ?thesis
      proof cases
        case 1
        then have "res_request_id r = keyOf a"
          by (auto simp: classifyRequest_def insertedResult_def updatedResult_def
              split: option.splits if_splits)
        moreover have "keyOf a \<in> ?ids" using 1(1) by simp
        ultimately show ?thesis using absent by metis
      next
        case 2
        then have "res_request_id r \<in> set (keys (absentItems payloadRequest tbl))"
          by (simp add: reversedResult_def)
        with notmarked show ?thesis by auto
      qed
    qed
    with kept show "it \<in> set ?tbl' \<and> (\<forall>r \<in> set (snd (runLoops payloadRequest tbl)).
        res_request_id r \<noteq> item_request_id it)"
      by blast
  qed
  have kept: ?kept
    using keys_runLoops[of payloadRequest tbl] by (auto simp: tbl')
  from retracted present still kept show ?thesis by blast
qed

theorem checkAndUpsertRequests_reversal_witness:
  "distinct (map item_request_id sampleTable)
   \<and> find (\<lambda>x. item_request_id x = ''C3'')
         (snd (checkAndUpsertRequests samplePayload sampleTable)) =
       Some (sampleItem ''C3'' ''d0'' True None)
   \<and> (\<exists>results. fst (checkAndUpsertRequests samplePayload sampleTable) = Some results
        \<and> \<lparr> res_cost_center_odoo = None, res_journal_move_id = None,
             res_request_id = ''C3'', res_related_to_id = IdStr ''77'',
             res_related_to_type = ''FAILURE'', res_stock_move_ids = None,
             res_state = REVERSED, res_upserted = None \<rparr> \<in> set results)
   \<and> sampleItem ''D4'' ''d0'' True None \<in> set (snd (checkAndUpsertRequests samplePayload sampleTable))
   \<and> map item_request_id (snd (checkAndUpsertRequests samplePayload sampleTable)) =
       [''42'', ''C3'', ''D4'', ''A1'']"
proof -
  have d: "distinct (map item_request_id sampleTable)"
    by (simp add: sample_defs)
  have run: "snd (checkAndUpsertRequests samplePayload sampleTable) =
      [sampleItem ''42'' ''d2'' False (Some [501]), sampleItem ''C3'' ''d0'' True None,
       sampleItem ''D4'' ''d0'' True None, sampleItem ''A1'' ''d1'' False None]"
    by code_simp
  have c3: "sampleItem ''C3'' ''d0'' False None \<in> set sampleTable"
    and d4: "sampleItem ''D4'' ''d0'' True None \<in> set sampleTable"
    by (simp_all add: sampleTable_def)
  note inst = checkAndUpsertRequests_reversal[OF d, of samplePayload]
  from inst c3 have "find (\<lambda>x. item_request_id x = ''C3'')
         (snd (checkAndUpsertRequests samplePayload sampleTable)) =
       Some (sampleItem ''C3'' ''d0'' True None)
     \<and> (\<exists>results. fst (checkAndUpsertRequests samplePayload sampleTable) = Some results
        \<and> \<lparr> res_cost_center_odoo = None, res_journal_move_id = None,
             res_request_id = ''C3'', res_related_to_id = IdStr ''77'',
             res_related_to_type = ''FAILURE'', res_stock_move_ids = None,
             res_state = REVERSED, res_upserted = None \<rparr> \<in> set results)"
    by (simp add: sample_defs)
  moreover from inst d4 have
    "sampleItem ''D4'' ''d0'' True None \<in> set (snd (checkAndUpsertRequests samplePayload sampleTable))"
    by (simp add: sample_defs)
  ultimately show ?thesis
    using d by (simp add: run) (simp add: sample_defs)
qed

subsection \<open>A second run on the same payload\<close>









section \<open>Properties of the translation\<close>

subsection \<open>Aggregation of the stock entries\<close>

lemma stockStep_apply:
  "stockStep acc s k =
     (if stock_material_id s = k
      then (case acc k of None \<Rightarrow> Some (quantityOrZero s, stock_mean_price s)
            | Some (q, p) \<Rightarrow> Some (q + quantityOrZero s, p))
      else acc k)"
  by (auto simp: stockStep_def Let_def split: option.splits)

lemma foldl_stockStep:
  "foldl stockStep acc stocks k =
     (case acc k of
        None \<Rightarrow>
          (case find (\<lambda>s. stock_material_id s = k) stocks of
             None \<Rightarrow> None
           | Some s \<Rightarrow> Some (sum_list (map quantityOrZero (stocksFor k stocks)), stock_mean_price s))
      | Some (q, p) \<Rightarrow> Some (q + sum_list (map quantityOrZero (stocksFor k stocks)), p))"
proof (induction stocks arbitrary: acc)
  case Nil
  then show ?case by (simp split: option.splits)
next
  case (Cons s stocks)
  have "foldl stockStep acc (s # stocks) k = foldl stockStep (stockStep acc s) stocks k"
    by simp
  also have "\<dots> =
     (case stockStep acc s k of
        None \<Rightarrow>
          (case find (\<lambda>s. stock_material_id s = k) stocks of
             None \<Rightarrow> None
           | Some s \<Rightarrow> Some (sum_list (map quantityOrZero (stocksFor k stocks)), stock_mean_price s))
      | Some (q, p) \<Rightarrow> Some (q + sum_list (map quantityOrZero (stocksFor k stocks)), p))"
    by (rule Cons.IH)
  finally show ?case
    using stockStep_apply[of acc s k] by (auto split: option.splits)
qed

lemma stockMap_apply:
  "stockMap incl k =
     (case find (\<lambda>s. stock_material_id s = k) (stocksOf incl) of
        None \<Rightarrow> None
      | Some s \<Rightarrow> Some (sum_list (map quantityOrZero (stocksFor k (stocksOf incl))),
                         stock_mean_price s))"
  by (simp add: stockMap_def foldl_stockStep)


lemma filter_empty_of_find: "find P xs = None \<Longrightarrow> filter P xs = []"
  by (simp add: find_None_iff filter_empty_conv)

lemma mapThrowing_Inl_iff: "isl (mapThrowing f xs) \<longleftrightarrow> (\<exists>x \<in> set xs. isl (f x))"
  by (induction xs) (auto split: sum.splits)

lemma materialEntry_skipped:
  "\<not> truthyNum (material_id m) \<Longrightarrow> materialEntry smap wo m = Inr None"
  by (simp add: materialEntry_def)

lemma materialEntry_kept:
  "truthyNum (material_id m) \<Longrightarrow> materialEntry smap wo m = Inr e \<Longrightarrow> e \<noteq> None"
  by (auto simp: materialEntry_def Let_def split: if_splits)


lemma mapThrowing_materialEntry_lines:
  "mapThrowing (materialEntry smap wo) ms = Inr entries \<Longrightarrow>
   list_all2 (\<lambda>m l. materialEntry smap wo m = Inr (Some l))
     (filter (\<lambda>m. truthyNum (material_id m)) ms) (List.map_filter (\<lambda>x. x) entries)"
proof (induction ms arbitrary: entries)
  case Nil
  then show ?case by (simp add: List.map_filter_simps)
next
  case (Cons m ms)
  from Cons.prems obtain e es where e: "materialEntry smap wo m = Inr e"
      and es: "mapThrowing (materialEntry smap wo) ms = Inr es" and entries: "entries = e # es"
    by (auto split: sum.splits)
  note IH = Cons.IH[OF es]
  show ?case
  proof (cases "truthyNum (material_id m)")
    case True
    then obtain l where "e = Some l"
      using materialEntry_kept[OF True e] by auto
    with True e IH entries show ?thesis
      by (simp add: List.map_filter_simps)
  next
    case False
    then have "e = None"
      using e by (simp add: materialEntry_skipped)
    with False IH entries show ?thesis
      by (simp add: List.map_filter_simps)
  qed
qed

lemma processWorkOrder_Inr:
  assumes "fst (processWorkOrder odooAccounts (Some resp) costCenters wo requestId tbl) = Inr r"
    and "included resp = Some incl"
  shows "\<exists>entries. mapThrowing (materialEntry (stockMap incl) wo) (materialsOf incl) = Inr entries
           \<and> material r = List.map_filter (\<lambda>x. x) entries"
  using assms
  by (auto simp: processWorkOrder_def materialData_def Let_def split: option.splits sum.splits)

lemma sample_processed:
  "fst (processWorkOrder sampleAccounts (Some (sampleOrder sampleIncluded)) sampleCostCenters
             (IdNum 77) ''A1'' []) =
       Inr \<lparr> order_workOrderId = IdNum 77, costCenter = 640,
             material = [\<lparr> workOrderId = IdNum 77, materialId = 9, materialCode = ''WID-001'',
                           folderCode = ''F1'', quantity = 8, meanPrice = 7 \<rparr>] \<rparr>"
  by code_simp

text \<open>
  Claim C6. Whenever \<^verbatim>\<open>processWorkOrder\<close> returns, its material list has one line per
  material entry that has a material id, in order (not one per stock entry); the
  quantity of the line is the sum of the quantities (\<^verbatim>\<open>|| 0\<close>) of all stock entries of
  the order with that \<^verbatim>\<open>material_id\<close>, and its \<^verbatim>\<open>meanPrice\<close> is the \<^verbatim>\<open>mean_price\<close> of the
  first such stock entry, whatever the other entries say; only when the order has no
  stock entry for the material is it the material's own \<^verbatim>\<open>mean_price\<close>.
\<close>

theorem processWorkOrder_aggregates:
  assumes "fst (processWorkOrder odooAccounts (Some resp) costCenters wo requestId tbl) = Inr r"
    and "included resp = Some incl"
  shows "list_all2
           (\<lambda>m l. materialId l = the (material_id m)
              \<and> quantity l =
                  sum_list (map quantityOrZero
                    (filter (\<lambda>s. stock_material_id s = the (material_id m)) (stocksOf incl)))
              \<and> meanPrice l =
                  (case find (\<lambda>s. stock_material_id s = the (material_id m)) (stocksOf incl) of
                     None \<Rightarrow> mean_price m
                   | Some s \<Rightarrow> stock_mean_price s))
           (filter (\<lambda>m. truthyNum (material_id m)) (materialsOf incl))
           (material r)"
proof -
  obtain entries where
    entries: "mapThrowing (materialEntry (stockMap incl) wo) (materialsOf incl) = Inr entries"
    and lines: "material r = List.map_filter (\<lambda>x. x) entries"
    using processWorkOrder_Inr[OF assms] by blast
  have "list_all2 (\<lambda>m l. materialEntry (stockMap incl) wo m = Inr (Some l))
     (filter (\<lambda>m. truthyNum (material_id m)) (materialsOf incl)) (material r)"
    using mapThrowing_materialEntry_lines[OF entries] lines by simp
  then show ?thesis
  proof (rule list_all2_mono)
    fix m l
    assume "materialEntry (stockMap incl) wo m = Inr (Some l)"
    then show "materialId l = the (material_id m)
       \<and> quantity l = sum_list (map quantityOrZero
            (filter (\<lambda>s. stock_material_id s = the (material_id m)) (stocksOf incl)))
       \<and> meanPrice l =
           (case find (\<lambda>s. stock_material_id s = the (material_id m)) (stocksOf incl) of
              None \<Rightarrow> mean_price m
            | Some s \<Rightarrow> stock_mean_price s)"
      by (auto simp: materialEntry_def Let_def stockMap_apply filter_empty_of_find
          split: if_splits option.splits)
  qed
qed

theorem processWorkOrder_aggregates_witness:
  "fst (processWorkOrder sampleAccounts (Some (sampleOrder sampleIncluded)) sampleCostCenters
          (IdNum 77) ''A1'' []) =
     Inr \<lparr> order_workOrderId = IdNum 77, costCenter = 640,
           material = [\<lparr> workOrderId = IdNum 77, materialId = 9, materialCode = ''WID-001'',
                         folderCode = ''F1'', quantity = 8, meanPrice = 7 \<rparr>] \<rparr>
   \<and> included (sampleOrder sampleIncluded) = Some sampleIncluded
   \<and> list_all2 (\<lambda>m l. materialId l = 9 \<and> quantity l = 3 + 5 \<and> meanPrice l = 7)
        [widget]
        [\<lparr> workOrderId = IdNum 77, materialId = 9, materialCode = ''WID-001'',
           folderCode = ''F1'', quantity = 8, meanPrice = 7 \<rparr>]"
proof -
  have i: "included (sampleOrder sampleIncluded) = Some sampleIncluded"
    by (simp add: sampleOrder_def)
  have "list_all2 (\<lambda>m l. materialId l = 9 \<and> quantity l = 3 + 5 \<and> meanPrice l = 7)
        [widget]
        [\<lparr> workOrderId = IdNum 77, materialId = 9, materialCode = ''WID-001'',
           folderCode = ''F1'', quantity = 8, meanPrice = 7 \<rparr>]"
    using processWorkOrder_aggregates[OF sample_processed i]
    by (simp add: order_defs stocksOf_def materialsOf_def List.map_filter_simps truthyNum_def
        quantityOrZero_def)
  with sample_processed i show ?thesis by simp
qed

subsection \<open>Validation of the material entries\<close>














subsection \<open>Matching the material lines against the stock snapshot\<close>

lemma findMatchingProduct_wellCoded:
  "\<forall>p \<in> set odooStock. wellCoded p \<Longrightarrow>
   findMatchingProduct (materialCode l) odooStock = Inr (firstMatch odooStock l)"
  by (induction odooStock)
     (auto simp: wellCoded_def referenceCode_def firstMatch_def split: option.splits)



lemma mapThrowing_Inr_all2:
  "mapThrowing f xs = Inr ys \<Longrightarrow> list_all2 (\<lambda>x y. f x = Inr y) xs ys"
  by (induction xs arbitrary: ys) (auto split: sum.splits)

lemma mapThrowing_Inl_source:
  "mapThrowing f xs = Inl e \<Longrightarrow> \<exists>x \<in> set xs. f x = Inl e"
  by (induction xs) (auto split: sum.splits)

lemma mapThrowing_all_Inr:
  "\<forall>x \<in> set xs. \<not> isl (f x) \<Longrightarrow> \<exists>ys. mapThrowing f xs = Inr ys \<and> length ys = length xs"
proof (induction xs)
  case Nil
  then show ?case by simp
next
  case (Cons x xs)
  then obtain ys where "mapThrowing f xs = Inr ys" "length ys = length xs"
    by auto
  moreover obtain y where "f x = Inr y"
    using Cons.prems by (cases "f x") auto
  ultimately show ?case by simp
qed

lemma inventoryItem_wellCoded:
  assumes "\<forall>p \<in> set odooStock. wellCoded p"
  shows "inventoryItem lines odooStock l =
     (if materialCode l = [] then Inl MaterialCodeMissingItem
      else case firstMatch odooStock l of
             None \<Rightarrow> Inl (NoMatchingProduct (materialCode l))
           | Some p \<Rightarrow>
               if quant_quantity p < quantity l
               then Inl (CannotPost (quantity l) (quant_id p) (quant_quantity p))
               else Inr \<lparr> product_id = fst (quant_product_id p),
                          location_id = fst (quant_location_id p),
                          posting_quantity = quantity l,
                          work_order_id = workOrderId (hd lines) \<rparr>)"
  by (simp add: inventoryItem_def findMatchingProduct_wellCoded[OF assms] split: option.splits)

text \<open>
  Claim C5 (amended). Let every record of the stock snapshot carry a non-empty bracketed
  reference code in its display name. Then, for the material lines given to
  \<^verbatim>\<open>prepareInventoryPosting\<close>: if for some line (with a material code) no record's code
  equals the material code, after trimming and ignoring case, the function throws and
  returns no posting list; if for some line the first matching record has less on hand
  than the line requests, it throws; if the list is not empty and every line has a code
  and a first matching record with enough on hand, it returns; whenever it returns,
  the postings correspond to the lines one to one, each carrying the product id and the
  location id of the first matching record and the requested quantity; and whenever it
  throws, the error is ``Error preparing Inventory'' around the failure of one of the
  lines (missing material code, no matching product, or cannot post the quantity), or
  around ``No valid inventory data to post'' for an empty list. The function is a pure
  function of the lines and the snapshot: it writes to no remote system and to no table.
\<close>

theorem prepareInventoryPosting_matching:
  assumes "\<forall>p \<in> set odooStock. wellCoded p"
  shows
    "(\<forall>l \<in> set lines. materialCode l \<noteq> [] \<and> firstMatch odooStock l = None
        \<longrightarrow> isl (prepareInventoryPosting lines odooStock))
   \<and> (\<forall>l \<in> set lines. \<forall>p. firstMatch odooStock l = Some p \<and> quant_quantity p < quantity l
        \<longrightarrow> isl (prepareInventoryPosting lines odooStock))
   \<and> (lines \<noteq> []
       \<and> (\<forall>l \<in> set lines. materialCode l \<noteq> []
            \<and> (\<exists>p. firstMatch odooStock l = Some p \<and> quantity l \<le> quant_quantity p))
        \<longrightarrow> \<not> isl (prepareInventoryPosting lines odooStock))
   \<and> (\<forall>posts. prepareInventoryPosting lines odooStock = Inr posts
        \<longrightarrow> list_all2
              (\<lambda>l post. \<exists>p. firstMatch odooStock l = Some p \<and> quantity l \<le> quant_quantity p
                 \<and> post = \<lparr> product_id = fst (quant_product_id p),
                            location_id = fst (quant_location_id p),
                            posting_quantity = quantity l,
                            work_order_id = workOrderId (hd lines) \<rparr>)
              lines posts)
   \<and> (\<forall>e. prepareInventoryPosting lines odooStock = Inl e
        \<longrightarrow> (lines = [] \<and> e = ErrorPreparingInventory NoValidInventoryData)
          \<or> (\<exists>l \<in> set lines.
                (materialCode l = [] \<and> e = ErrorPreparingInventory MaterialCodeMissingItem)
              \<or> (materialCode l \<noteq> [] \<and> firstMatch odooStock l = None
                  \<and> e = ErrorPreparingInventory (NoMatchingProduct (materialCode l)))
              \<or> (\<exists>p. materialCode l \<noteq> [] \<and> firstMatch odooStock l = Some p
                     \<and> quant_quantity p < quantity l
                     \<and> e = ErrorPreparingInventory
                           (CannotPost (quantity l) (quant_id p) (quant_quantity p)))))"
  (is "?unmatched \<and> ?insufficient \<and> ?succeeds \<and> ?postings \<and> ?failures")
proof -
  let ?f = "inventoryItem lines odooStock"
  note item = inventoryItem_wellCoded[OF assms, of lines]
  have fails: "isl (prepareInventoryPosting lines odooStock)" if "l \<in> set lines" "isl (?f l)" for l
  proof -
    have "isl (mapThrowing ?f lines)"
      using that mapThrowing_Inl_iff by blast
    then show ?thesis
      by (auto simp: prepareInventoryPosting_def split: sum.splits)
  qed
  have unmatched: ?unmatched
  proof (intro ballI impI)
    fix l assume "l \<in> set lines" "materialCode l \<noteq> [] \<and> firstMatch odooStock l = None"
    then show "isl (prepareInventoryPosting lines odooStock)"
      by (intro fails[of l]) (simp_all add: item)
  qed
  have insufficient: ?insufficient
  proof (intro ballI allI impI)
    fix l p
    assume l: "l \<in> set lines"
      and p: "firstMatch odooStock l = Some p \<and> quant_quantity p < quantity l"
    have "isl (?f l)"
      using p by (cases "materialCode l = []") (simp_all add: item)
    with l show "isl (prepareInventoryPosting lines odooStock)"
      by (rule fails)
  qed
  have succeeds: ?succeeds
  proof (intro impI)
    assume ok: "lines \<noteq> [] \<and> (\<forall>l \<in> set lines. materialCode l \<noteq> []
            \<and> (\<exists>p. firstMatch odooStock l = Some p \<and> quantity l \<le> quant_quantity p))"
    then have "\<forall>l \<in> set lines. \<not> isl (?f l)"
      by (auto simp: item)
    then obtain ys where "mapThrowing ?f lines = Inr ys" "length ys = length lines"
      using mapThrowing_all_Inr by blast
    with ok show "\<not> isl (prepareInventoryPosting lines odooStock)"
      by (simp add: prepareInventoryPosting_def)
  qed
  have postings: ?postings
  proof (intro allI impI)
    fix posts
    assume "prepareInventoryPosting lines odooStock = Inr posts"
    then have "mapThrowing ?f lines = Inr posts"
      by (auto simp: prepareInventoryPosting_def split: sum.splits if_splits)
    then have "list_all2 (\<lambda>l post. ?f l = Inr post) lines posts"
      by (rule mapThrowing_Inr_all2)
    then show "list_all2
              (\<lambda>l post. \<exists>p. firstMatch odooStock l = Some p \<and> quantity l \<le> quant_quantity p
                 \<and> post = \<lparr> product_id = fst (quant_product_id p),
                            location_id = fst (quant_location_id p),
                            posting_quantity = quantity l,
                            work_order_id = workOrderId (hd lines) \<rparr>)
              lines posts"
    proof (rule list_all2_mono)
      fix l post
      assume "?f l = Inr post"
      then show "\<exists>p. firstMatch odooStock l = Some p \<and> quantity l \<le> quant_quantity p
                 \<and> post = \<lparr> product_id = fst (quant_product_id p),
                            location_id = fst (quant_location_id p),
                            posting_quantity = quantity l,
                            work_order_id = workOrderId (hd lines) \<rparr>"
        by (auto simp: item split: if_splits option.splits)
    qed
  qed
  have failures: ?failures
  proof (intro allI impI)
    fix e
    assume e: "prepareInventoryPosting lines odooStock = Inl e"
    show "(lines = [] \<and> e = ErrorPreparingInventory NoValidInventoryData)
          \<or> (\<exists>l \<in> set lines.
                (materialCode l = [] \<and> e = ErrorPreparingInventory MaterialCodeMissingItem)
              \<or> (materialCode l \<noteq> [] \<and> firstMatch odooStock l = None
                  \<and> e = ErrorPreparingInventory (NoMatchingProduct (materialCode l)))
              \<or> (\<exists>p. materialCode l \<noteq> [] \<and> firstMatch odooStock l = Some p
                     \<and> quant_quantity p < quantity l
                     \<and> e = ErrorPreparingInventory
                           (CannotPost (quantity l) (quant_id p) (quant_quantity p))))"
    proof (cases "mapThrowing ?f lines")
      case (Inl e')
      then obtain l where l: "l \<in> set lines" "?f l = Inl e'"
        using mapThrowing_Inl_source by blast
      from Inl e have "e = ErrorPreparingInventory e'"
        by (simp add: prepareInventoryPosting_def)
      with l(2) have "(materialCode l = [] \<and> e = ErrorPreparingInventory MaterialCodeMissingItem)
              \<or> (materialCode l \<noteq> [] \<and> firstMatch odooStock l = None
                  \<and> e = ErrorPreparingInventory (NoMatchingProduct (materialCode l)))
              \<or> (\<exists>p. materialCode l \<noteq> [] \<and> firstMatch odooStock l = Some p
                     \<and> quant_quantity p < quantity l
                     \<and> e = ErrorPreparingInventory
                           (CannotPost (quantity l) (quant_id p) (quant_quantity p)))"
        by (auto simp: item split: if_splits option.splits)
      with l(1) show ?thesis by blast
    next
      case (Inr ys)
      then have "list_all2 (\<lambda>l post. ?f l = Inr post) lines ys"
        by (rule mapThrowing_Inr_all2)
      then have "length lines = length ys"
        by (rule list_all2_lengthD)
      with Inr e show ?thesis
        by (auto simp: prepareInventoryPosting_def split: if_splits)
    qed
  qed
  from unmatched insufficient succeeds postings failures show ?thesis by blast
qed

lemma sample_wellCoded: "list_all wellCoded sampleStock"
  by code_simp

lemma sample_firstMatch:
  "firstMatch sampleStock (sampleLine q) =
     Some \<lparr> quant_id = 32, quant_product_id = (202, ''Widget [wid-001]''),
            quant_location_id = (8, ''WH/Stock''), quant_quantity = 4,
            quant_warehouse_id = Some (1, ''Main'') \<rparr>"
  unfolding sampleLine_def by code_simp

theorem prepareInventoryPosting_matching_witness:
  "list_all wellCoded sampleStock
   \<and> firstMatch sampleStock (sampleLine 5) =
       Some \<lparr> quant_id = 32, quant_product_id = (202, ''Widget [wid-001]''),
              quant_location_id = (8, ''WH/Stock''), quant_quantity = 4,
              quant_warehouse_id = Some (1, ''Main'') \<rparr>
   \<and> isl (prepareInventoryPosting [sampleLine 5] sampleStock)
   \<and> prepareInventoryPosting [sampleLine 5] sampleStock =
       Inl (ErrorPreparingInventory (CannotPost 5 32 4))
   \<and> prepareInventoryPosting [sampleLine 4] sampleStock =
       Inr [\<lparr> product_id = 202, location_id = 8, posting_quantity = 4,
               work_order_id = IdNum 77 \<rparr>]"
proof -
  have wc: "\<forall>p \<in> set sampleStock. wellCoded p"
    using sample_wellCoded by (simp add: list_all_iff)
  have l: "sampleLine 5 \<in> set [sampleLine 5]" by simp
  have "isl (prepareInventoryPosting [sampleLine 5] sampleStock)"
    using prepareInventoryPosting_matching[OF wc, of "[sampleLine 5]"] sample_firstMatch[of 5] l
    by (auto simp: sampleLine_def)
  moreover have "prepareInventoryPosting [sampleLine 5] sampleStock =
       Inl (ErrorPreparingInventory (CannotPost 5 32 4))"
    by code_simp
  moreover have "prepareInventoryPosting [sampleLine 4] sampleStock =
       Inr [\<lparr> product_id = 202, location_id = 8, posting_quantity = 4,
               work_order_id = IdNum 77 \<rparr>]"
    by code_simp
  ultimately show ?thesis
    using sample_wellCoded sample_firstMatch[of 5] by simp
qed

theorem prepareInventoryPosting_uncoded_counterexample:
  "firstMatch (uncodedQuant # sampleStock) (sampleLine 4) =
       Some \<lparr> quant_id = 32, quant_product_id = (202, ''Widget [wid-001]''),
              quant_location_id = (8, ''WH/Stock''), quant_quantity = 4,
              quant_warehouse_id = Some (1, ''Main'') \<rparr>
   \<and> quantity (sampleLine 4) \<le> 4
   \<and> prepareInventoryPosting [sampleLine 4] (uncodedQuant # sampleStock) =
       Inl (ErrorPreparingInventory TypeError)"
  by code_simp

subsection \<open>Partiality of the bracket-code extraction\<close>








subsection \<open>The journal entry\<close>

lemma materialLines_length:
  "length (materialLines ad cc ot st) = 2 * length (material ad)"
  by (simp add: materialLines_def Let_def length_concat o_def sum_list_triv)

lemma concat_pairs_nth:
  assumes "i < length xs"
  shows "concat (map (\<lambda>x. [f x, g x]) xs) ! (2 * i) = f (xs ! i)"
    and "concat (map (\<lambda>x. [f x, g x]) xs) ! (2 * i + 1) = g (xs ! i)"
  using assms
proof (induction xs arbitrary: i)
  case Nil
  { case 1 then show ?case by simp }
  { case 2 then show ?case by simp }
next
  case (Cons x xs)
  { case 1 then show ?case using Cons.IH(1)[of "i - 1"] by (cases i) simp_all }
  { case 2 then show ?case using Cons.IH(2)[of "i - 1"] by (cases i) simp_all }
qed

lemma materialLines_eq:
  "materialLines ad cc ot st =
     concat (map (\<lambda>m.
        [\<lparr> line_account_id = (case st of COMPLETED \<Rightarrow> accountIdInventories | REVERSED \<Rightarrow> cc),
           line_name = lineName ad ot st m,
           line_debit = Some (amountOf st m), line_credit = None \<rparr>,
         \<lparr> line_account_id = (case st of COMPLETED \<Rightarrow> cc | REVERSED \<Rightarrow> accountIdInventories),
           line_name = lineName ad ot st m,
           line_debit = None, line_credit = Some (amountOf st m) \<rparr>]) (material ad))"
  by (cases st) (simp_all add: materialLines_def amountOf_def Let_def)

text \<open>
  Claim C7. For every accounting payload, cost center account and state, the lines of
  the journal entry built by \<^verbatim>\<open>postOdooAccounting\<close> are one pair per material, in order:
  line \<open>2i\<close> is the debit line and line \<open>2i + 1\<close> the credit line of material \<open>i\<close>. The
  two lines of a pair carry the same amount, which is \<^verbatim>\<open>meanPrice * quantity\<close> when the
  state is COMPLETED and \<^verbatim>\<open>meanPrice\<close> alone when it is REVERSED. COMPLETED debits the
  inventories account (482) and credits the cost center account; REVERSED debits the
  cost center account and credits the inventories account.
\<close>

theorem postOdooAccounting_balanced_pairs:
  "length (move_line_ids (postOdooAccounting accountingData costCenterId orderType st)) =
     2 * length (material accountingData)
   \<and> (\<forall>i < length (material accountingData).
        line_debit (move_line_ids (postOdooAccounting accountingData costCenterId orderType st) ! (2 * i)) =
          Some (case st of
                  COMPLETED \<Rightarrow> meanPrice (material accountingData ! i) * quantity (material accountingData ! i)
                | REVERSED \<Rightarrow> meanPrice (material accountingData ! i))
      \<and> line_credit (move_line_ids (postOdooAccounting accountingData costCenterId orderType st) ! (2 * i)) = None
      \<and> line_account_id (move_line_ids (postOdooAccounting accountingData costCenterId orderType st) ! (2 * i)) =
          (case st of COMPLETED \<Rightarrow> 482 | REVERSED \<Rightarrow> costCenterId)
      \<and> line_credit (move_line_ids (postOdooAccounting accountingData costCenterId orderType st) ! (2 * i + 1)) =
          line_debit (move_line_ids (postOdooAccounting accountingData costCenterId orderType st) ! (2 * i))
      \<and> line_debit (move_line_ids (postOdooAccounting accountingData costCenterId orderType st) ! (2 * i + 1)) = None
      \<and> line_account_id (move_line_ids (postOdooAccounting accountingData costCenterId orderType st) ! (2 * i + 1)) =
          (case st of COMPLETED \<Rightarrow> costCenterId | REVERSED \<Rightarrow> 482))"
proof -
  let ?ls = "move_line_ids (postOdooAccounting accountingData costCenterId orderType st)"
  have ls: "?ls = materialLines accountingData costCenterId orderType st"
    by (simp add: postOdooAccounting_def)
  have len: "length ?ls = 2 * length (material accountingData)"
    by (simp add: ls materialLines_length)
  have pair: "?ls ! (2 * i) =
        \<lparr> line_account_id = (case st of COMPLETED \<Rightarrow> accountIdInventories | REVERSED \<Rightarrow> costCenterId),
          line_name = lineName accountingData orderType st (material accountingData ! i),
          line_debit = Some (amountOf st (material accountingData ! i)), line_credit = None \<rparr>"
      "?ls ! (2 * i + 1) =
        \<lparr> line_account_id = (case st of COMPLETED \<Rightarrow> costCenterId | REVERSED \<Rightarrow> accountIdInventories),
          line_name = lineName accountingData orderType st (material accountingData ! i),
          line_debit = None, line_credit = Some (amountOf st (material accountingData ! i)) \<rparr>"
    if "i < length (material accountingData)" for i
    unfolding ls materialLines_eq using concat_pairs_nth[OF that] by simp_all
  have "line_debit (?ls ! (2 * i)) =
          Some (case st of
                  COMPLETED \<Rightarrow> meanPrice (material accountingData ! i) * quantity (material accountingData ! i)
                | REVERSED \<Rightarrow> meanPrice (material accountingData ! i))
      \<and> line_credit (?ls ! (2 * i)) = None
      \<and> line_account_id (?ls ! (2 * i)) = (case st of COMPLETED \<Rightarrow> 482 | REVERSED \<Rightarrow> costCenterId)
      \<and> line_credit (?ls ! (2 * i + 1)) = line_debit (?ls ! (2 * i))
      \<and> line_debit (?ls ! (2 * i + 1)) = None
      \<and> line_account_id (?ls ! (2 * i + 1)) = (case st of COMPLETED \<Rightarrow> costCenterId | REVERSED \<Rightarrow> 482)"
    if i: "i < length (material accountingData)" for i
    using pair[OF i] by (cases st) (simp_all add: amountOf_def accountIdInventories_def)
  with len show ?thesis by blast
qed

theorem postOdooAccounting_balanced_pairs_witness:
  "0 < length (material sampleProcessed)
   \<and> move_line_ids (postOdooAccounting sampleProcessed 640 ''Work Order'' COMPLETED) =
       [\<lparr> line_account_id = 482, line_name = ''Work Order 77 - Ref: WID-001 (Qty: 8)'',
          line_debit = Some 56, line_credit = None \<rparr>,
        \<lparr> line_account_id = 640, line_name = ''Work Order 77 - Ref: WID-001 (Qty: 8)'',
          line_debit = None, line_credit = Some 56 \<rparr>]
   \<and> line_debit (move_line_ids (postOdooAccounting sampleProcessed 640 ''Work Order'' COMPLETED) ! (2 * 0))
       = Some (7 * 8)
   \<and> move_line_ids (postOdooAccounting sampleProcessed 640 ''Work Order'' REVERSED) =
       [\<lparr> line_account_id = 640, line_name = ''Work Order 77 REVERSED'',
          line_debit = Some 7, line_credit = None \<rparr>,
        \<lparr> line_account_id = 482, line_name = ''Work Order 77 REVERSED'',
          line_debit = None, line_credit = Some 7 \<rparr>]"
proof -
  have n: "0 < length (material sampleProcessed)"
    by (simp add: sampleProcessed_def)
  have "line_debit (move_line_ids (postOdooAccounting sampleProcessed 640 ''Work Order'' COMPLETED) ! (2 * 0))
       = Some (7 * 8)"
    using postOdooAccounting_balanced_pairs[of sampleProcessed 640 "''Work Order''" COMPLETED] n
    by (auto simp: sampleProcessed_def sampleLine_def)
  moreover have "move_line_ids (postOdooAccounting sampleProcessed 640 ''Work Order'' COMPLETED) =
       [\<lparr> line_account_id = 482, line_name = ''Work Order 77 - Ref: WID-001 (Qty: 8)'',
          line_debit = Some 56, line_credit = None \<rparr>,
        \<lparr> line_account_id = 640, line_name = ''Work Order 77 - Ref: WID-001 (Qty: 8)'',
          line_debit = None, line_credit = Some 56 \<rparr>]"
    by code_simp
  moreover have "move_line_ids (postOdooAccounting sampleProcessed 640 ''Work Order'' REVERSED) =
       [\<lparr> line_account_id = 640, line_name = ''Work Order 77 REVERSED'',
          line_debit = Some 7, line_credit = None \<rparr>,
        \<lparr> line_account_id = 482, line_name = ''Work Order 77 REVERSED'',
          line_debit = None, line_credit = Some 7 \<rparr>]"
    by code_simp
  ultimately show ?thesis using n by simp
qed

section \<open>Properties of the handler\<close>

lemma forOf_itemBody:
  "forOf (itemBody env costCenters odooStock) (item1 # rest) tbl =
     itemBody env costCenters odooStock item1 tbl"
  by (auto simp: itemBody_def split: prod.splits sum.splits completion.splits)

lemma itemBody_not_Normal:
  "fst (itemBody env costCenters odooStock item1 tbl) \<noteq> Normal"
  by (auto simp: itemBody_def split: prod.splits sum.splits)

lemma sample_run:
  "checkAndUpsertRequests samplePayload sampleTable =
     (Some (sampleInserted # [sampleUpdated, sampleReversed]), sampleTableAfter)"
  by code_simp

text \<open>
  Claim C9. Whatever the remote systems answer, the loop of the handler over the
  classified items never goes past the first item: its body returns the HTTP response
  when the posting of the item succeeds and throws otherwise, so steps 3 and 4 on a list
  \<open>item1 # rest\<close> give the response and the table they give on \<open>[item1]\<close> alone. When the
  posting of the first item succeeds the handler returns ``Successfully posted'' with
  status 200 for that item, and the items after it are not processed in this invocation.
\<close>

theorem handler_returns_after_first_item:
  "postItems env (item1 # rest) tbl = postItems env [item1] tbl
   \<and> (\<forall>payloadRequest tbl1.
         getInfraspeakRequests env = Inr payloadRequest
         \<and> checkAndUpsertRequests payloadRequest tbl = (Some (item1 # rest), tbl1)
         \<longrightarrow> handler env tbl = postItems env [item1] tbl1)
   \<and> (\<forall>costCenters odooStock tbl1.
         getCostCentersInfraspeak env = Inr costCenters \<and> getOdooStockQuant env = Inr odooStock
         \<and> processItem env costCenters odooStock item1 tbl = (Inr True, tbl1)
         \<longrightarrow> postItems env (item1 # rest) tbl =
              (Inr (Some (createResponse
                  (SuccessfullyPosted (orderTypeOf item1) (res_related_to_id item1)) 200)), tbl1))
   \<and> (\<forall>costCenters odooStock.
         forOf (itemBody env costCenters odooStock) (item1 # rest) tbl =
           itemBody env costCenters odooStock item1 tbl
         \<and> fst (itemBody env costCenters odooStock item1 tbl) \<noteq> Normal)"
  (is "?first \<and> ?handler \<and> ?success \<and> ?loop")
proof -
  have first: "postItems env (item1 # rest) tbl = postItems env [item1] tbl" for tbl
    by (simp only: postItems_def forOf_itemBody)
  have ?handler
    by (auto simp: handler_def first)
  moreover have ?success
    by (auto simp: postItems_def forOf_itemBody itemBody_def)
  moreover have ?loop
    by (simp only: forOf_itemBody itemBody_not_Normal) simp
  ultimately show ?thesis using first by blast
qed

theorem handler_returns_after_first_item_witness:
  "getInfraspeakRequests sampleRemote = Inr samplePayload
   \<and> checkAndUpsertRequests samplePayload sampleTable =
       (Some (sampleInserted # [sampleUpdated, sampleReversed]), sampleTableAfter)
   \<and> handler sampleRemote sampleTable = postItems sampleRemote [sampleInserted] sampleTableAfter
   \<and> fst (handler sampleRemote sampleTable) =
       Inr (Some \<lparr> statusCode = 200, body = SuccessfullyPosted ''Work Order'' (IdNum 77) \<rparr>)
   \<and> map (\<lambda>x. (item_request_id x, item_account_move_id x)) (snd (handler sampleRemote sampleTable)) =
       [(''42'', None), (''C3'', None), (''D4'', None), (''A1'', Some 900)]"
proof -
  have req: "getInfraspeakRequests sampleRemote = Inr samplePayload"
    by (simp add: sampleRemote_def)
  have "handler sampleRemote sampleTable = postItems sampleRemote [sampleInserted] sampleTableAfter"
    using handler_returns_after_first_item
      [of sampleRemote sampleInserted "[sampleUpdated, sampleReversed]" sampleTable]
      req sample_run
    by blast
  moreover have "fst (handler sampleRemote sampleTable) =
       Inr (Some \<lparr> statusCode = 200, body = SuccessfullyPosted ''Work Order'' (IdNum 77) \<rparr>)"
    by code_simp
  moreover have "map (\<lambda>x. (item_request_id x, item_account_move_id x))
      (snd (handler sampleRemote sampleTable)) =
       [(''42'', None), (''C3'', None), (''D4'', None), (''A1'', Some 900)]"
    by code_simp
  ultimately show ?thesis
    using req sample_run by simp
qed

section \<open>Properties of the stock synchronisation\<close>

lemma stockDecision_found:
  assumes "truthyJs (MaterialId w)"
    and "getMaterialQuantitiesFromInfraspeak qs (MaterialId w) (WarehouseId w) = Some (Num f)"
    and "f \<noteq> 0"
  shows "stockDecision qs w =
     (if AvailableQty w > f
      then Post (stockMovementPayloadAdd (MaterialId w) (AvailableQty w - f) (WarehouseId w) (AverageCost w))
      else if AvailableQty w < f
      then Post (stockMovementPayloadConsume (MaterialId w) (f - AvailableQty w) (WarehouseId w) (AverageCost w))
      else ReturnNull)"
  using assms by (simp add: stockDecision_def Let_def)

lemma stockDecision_absent:
  assumes "truthyJs (MaterialId w)"
    and "getMaterialQuantitiesFromInfraspeak qs (MaterialId w) (WarehouseId w) = None"
  shows "stockDecision qs w =
     Post (stockMovementPayloadAdd (MaterialId w) (AvailableQty w) (WarehouseId w) (AverageCost w))"
  using assms by (simp add: stockDecision_def Let_def)

lemma stockDecision_zero:
  assumes "truthyJs (MaterialId w)"
    and "getMaterialQuantitiesFromInfraspeak qs (MaterialId w) (WarehouseId w) = Some (Num 0)"
  shows "stockDecision qs w =
     Post (stockMovementPayloadAdd (MaterialId w) (AvailableQty w) (WarehouseId w) (AverageCost w))"
  using assms by (simp add: stockDecision_def Let_def)

text \<open>
  Claim C8. The drift reconciler compares the ledger quantity \<open>L\<close> with the field
  quantity \<open>F\<close> only when \<open>F\<close> is not zero (lemma \<open>stockDecision_found\<close>: ADD of \<open>L - F\<close>,
  ABATE of \<open>F - L\<close>, or nothing when they are equal); a missing field record gives a full
  ADD of \<open>L\<close> (lemma \<open>stockDecision_absent\<close>). A field record with quantity zero is
  treated like a missing one (lemma \<open>stockDecision_zero\<close>), so with \<open>L = F = 0\<close> the code
  posts an ADD movement of quantity 0 where equal quantities should post nothing, as
  they do for \<open>L = F = 10\<close>.
\<close>

theorem stockDecision_zero_quantities:
  "getMaterialQuantitiesFromInfraspeak [sampleFieldQuantity ''0''] (Num 9) 2 = Some (Num 0)
   \<and> AvailableQty (sampleLedgerStock 0) = 0
   \<and> stockDecision [sampleFieldQuantity ''0''] (sampleLedgerStock 0) =
       Post \<lparr> mv_action = ADD, mv_warehouse_id = 2, mv_mean_price = 2,
              mv_material_id = Num 9, mv_quantity = 0 \<rparr>
   \<and> postStockToInfraspeak Some [sampleLedgerStock 0] [sampleFieldQuantity ''0''] =
       [Some \<lparr> mv_action = ADD, mv_warehouse_id = 2, mv_mean_price = 2,
               mv_material_id = Num 9, mv_quantity = 0 \<rparr>]
   \<and> stockDecision [sampleFieldQuantity ''10''] (sampleLedgerStock 10) = ReturnNull"
  by code_simp

end
